theory Spec2Isabelle
  imports Complex_Main "HOL-Library.Log_Nat"
begin

section \<open>Numbers and series\<close>

text \<open>
  A Python \<open>float\<close> is modelled by the rational number it denotes, and float arithmetic by
  exact rational arithmetic: rounding of sums and quotients, infinities and signed zeros
  are outside the model. A pandas \<open>Series\<close> of floats is a list of optional rationals,
  \<open>None\<close> standing for \<open>NaN\<close>; all series of one computation share their index, so
  element-wise operations work position by position.
\<close>

type_synonym series = "rat option list"

subsection \<open>The pandas operations used by \<open>indicators.py\<close>\<close>

text \<open>
  \<open>Series.rolling(window, min_periods).mean()\<close>: the window of position \<open>i\<close> holds the
  (at most) \<open>window\<close> entries ending at \<open>i\<close>; the result is the mean of the entries that
  are not \<open>NaN\<close> when there are at least \<open>min_periods\<close> of them (and at least one), and
  \<open>NaN\<close> otherwise.
\<close>

definition window_at :: "nat \<Rightarrow> series \<Rightarrow> nat \<Rightarrow> series" where
  "window_at window xs i = drop (i + 1 - window) (take (i + 1) xs)"

definition observations :: "series \<Rightarrow> rat list" where
  "observations ys = map the (filter (\<lambda>v. v \<noteq> None) ys)"

definition mean_min_periods :: "nat \<Rightarrow> series \<Rightarrow> rat option" where
  "mean_min_periods min_periods ys =
     (let obs = observations ys in
      if min_periods \<le> length obs \<and> obs \<noteq> []
      then Some (sum_list obs / of_nat (length obs)) else None)"

definition rolling_mean :: "nat \<Rightarrow> nat \<Rightarrow> series \<Rightarrow> series" where
  "rolling_mean window min_periods xs =
     map (\<lambda>i. mean_min_periods min_periods (window_at window xs i)) [0..<length xs]"

text \<open>\<open>Series.diff()\<close>: the first position is \<open>NaN\<close>, and so is every difference with a
  \<open>NaN\<close> operand.\<close>

definition diff :: "series \<Rightarrow> series" where
  "diff xs =
     map (\<lambda>i. if i = 0 then None
              else (case (xs ! i, xs ! (i - 1)) of
                      (Some b, Some a) \<Rightarrow> Some (b - a)
                    | _ \<Rightarrow> None)) [0..<length xs]"

definition clip_lower :: "rat \<Rightarrow> series \<Rightarrow> series" where
  "clip_lower lo xs = map (map_option (\<lambda>v. max lo v)) xs"

definition clip_upper :: "rat \<Rightarrow> series \<Rightarrow> series" where
  "clip_upper hi xs = map (map_option (\<lambda>v. min hi v)) xs"

definition neg :: "series \<Rightarrow> series" where
  "neg xs = map (map_option uminus) xs"

text \<open>\<open>Series.replace(0, np.nan)\<close>.\<close>

definition replace_zero_nan :: "series \<Rightarrow> series" where
  "replace_zero_nan xs = map (\<lambda>v. if v = Some 0 then None else v) xs"

text \<open>
  Element-wise division. A zero divisor would give an infinity or \<open>NaN\<close> in pandas; the
  only divisor of the source went through \<open>replace(0, np.nan)\<close>, so that branch is never
  taken there (lemma \<open>replace_zero_nan_nonzero\<close>), and the model gives \<open>NaN\<close> for it.
\<close>

definition series_div :: "series \<Rightarrow> series \<Rightarrow> series" where
  "series_div xs ys =
     map (\<lambda>(x, y). case (x, y) of
                     (Some a, Some b) \<Rightarrow> (if b = 0 then None else Some (a / b))
                   | _ \<Rightarrow> None) (zip xs ys)"

text \<open>\<open>Series.bfill()\<close>: a \<open>NaN\<close> takes the next valid value after it, if there is one.\<close>

fun bfill :: "series \<Rightarrow> series" where
  "bfill [] = []"
| "bfill (x # xs) =
     (let r = bfill xs in
      (case x of
         Some v \<Rightarrow> Some v
       | None \<Rightarrow> (case r of [] \<Rightarrow> None | y # _ \<Rightarrow> y)) # r)"

subsection \<open>\<open>indicators.py\<close>\<close>

definition sma :: "series \<Rightarrow> nat \<Rightarrow> series" where
  "sma series window = rolling_mean window window series"

text \<open>The local series of \<open>rsi\<close>, each as a function of the arguments it is computed from.\<close>

definition gains :: "series \<Rightarrow> series" where
  "gains close = clip_lower 0 (diff close)"

definition losses :: "series \<Rightarrow> series" where
  "losses close = neg (clip_upper 0 (diff close))"

definition avg_gain :: "series \<Rightarrow> nat \<Rightarrow> series" where
  "avg_gain close period = rolling_mean period period (gains close)"

definition avg_loss :: "series \<Rightarrow> nat \<Rightarrow> series" where
  "avg_loss close period = rolling_mean period period (losses close)"

definition rs :: "series \<Rightarrow> nat \<Rightarrow> series" where
  "rs close period = series_div (avg_gain close period) (replace_zero_nan (avg_loss close period))"

text \<open>
  \<open>rsi_vals\<close>, the series before the final \<open>bfill\<close>. Over the rationals the value is
  below 100 for every ratio; in float64 the subtraction rounds to exactly 100.0 once the
  ratio is large enough, so no theorem below relies on the value being different from 100.
\<close>

definition rsi_vals :: "series \<Rightarrow> nat \<Rightarrow> series" where
  "rsi_vals close period = map (map_option (\<lambda>r. 100 - 100 / (1 + r))) (rs close period)"

definition rsi :: "series \<Rightarrow> nat \<Rightarrow> series" where
  "rsi close period = bfill (rsi_vals close period)"


section \<open>Strings and number formatting\<close>

text \<open>
  A Python \<open>str\<close> is modelled by its UTF-8 bytes, so the Vietnamese messages, the arrows and
  the bullet of the source appear as byte sequences. \<open>str.strip\<close> and \<open>str.upper\<close> are
  modelled on ASCII; other bytes are left as they are.
\<close>

definition is_space :: "char \<Rightarrow> bool" where
  "is_space c = (of_char c \<in> {9, 10, 11, 12, 13, 28, 29, 30, 31, 32 :: nat})"

definition strip :: "string \<Rightarrow> string" where
  "strip s = rev (dropWhile is_space (rev (dropWhile is_space s)))"

definition upper_char :: "char \<Rightarrow> char" where
  "upper_char c = (let n = of_char c :: nat in if 97 \<le> n \<and> n \<le> 122 then char_of (n - 32) else c)"

definition upper :: "string \<Rightarrow> string" where
  "upper s = map upper_char s"

text \<open>\<open>sep.join(parts)\<close>.\<close>

fun join :: "string \<Rightarrow> string list \<Rightarrow> string" where
  "join sep [] = []"
| "join sep [x] = x"
| "join sep (x # y # ys) = x @ sep @ join sep (y # ys)"

text \<open>The decimal digits of a non-negative integer.\<close>

definition digit_char :: "int \<Rightarrow> char" where
  "digit_char d = ''0123456789'' ! nat d"

function decimal :: "int \<Rightarrow> string" where
  "decimal n = (if n < 10 then [digit_char n] else decimal (n div 10) @ [digit_char (n mod 10)])"
  by pat_completeness auto
termination
  by (relation "measure nat") auto

declare decimal.simps [simp del]

text \<open>The \<open>,\<close> option of the format mini-language: a comma before every group of three
  digits, counted from the right.\<close>

fun group_thousands :: "string \<Rightarrow> string" where
  "group_thousands ds =
     (if length ds \<le> 3 then ds
      else group_thousands (take (length ds - 3) ds) @ '','' @ drop (length ds - 3) ds)"

declare group_thousands.simps [simp del]

text \<open>Rounding to the nearest integer, ties to the even one, as float formatting and float
  arithmetic round.\<close>

definition round_half_even :: "rat \<Rightarrow> int" where
  "round_half_even x =
     (let f = \<lfloor>x\<rfloor>; d = x - of_int f in
      if d < 1 / 2 then f else if 1 / 2 < d then f + 1 else if even f then f else f + 1)"

text \<open>\<open>f"{x:.2f}"\<close> (\<open>grouping = False\<close>) and \<open>f"{x:,.2f}"\<close> (\<open>grouping = True\<close>) of a float.\<close>

definition format_float :: "bool \<Rightarrow> rat \<Rightarrow> string" where
  "format_float grouping x =
     (let n = round_half_even (\<bar>x\<bar> * 100);
          whole = decimal (n div 100);
          frac = [digit_char (n mod 100 div 10), digit_char (n mod 10)]
      in (if x < 0 then ''-'' else []) @ (if grouping then group_thousands whole else whole)
           @ ''.'' @ frac)"

text \<open>\<open>f"{n:,}"\<close> of an int.\<close>

definition format_int :: "int \<Rightarrow> string" where
  "format_int n = (if n < 0 then ''-'' else []) @ group_thousands (decimal \<bar>n\<bar>)"

subsection \<open>True division of ints\<close>

datatype py_error = KeyError string | ZeroDivisionError | OverflowError

text \<open>
  \<open>a / b\<close> on Python ints is the double nearest to the exact quotient (ties to even), and
  raises \<open>OverflowError\<close> when that is beyond the doubles. This one rounding is modelled,
  since the two decimals printed for a market capitalisation depend on it.
\<close>

text \<open>The binary exponent of a positive rational: \<open>2 powi ilog2 a \<le> a < 2 powi (ilog2 a + 1)\<close>,
  found from the bit lengths of numerator and denominator.\<close>

definition ilog2 :: "rat \<Rightarrow> int" where
  "ilog2 a =
     (let (n, d) = quotient_of a;
          e0 = bitlen n - bitlen d
      in if 2 powi e0 \<le> a then e0 else e0 - 1)"

text \<open>
  The double nearest to \<open>q\<close>, \<open>None\<close> when it is beyond the doubles. With \<open>e\<close> the
  binary exponent (at least \<open>-1022\<close>, where the subnormals start) the doubles around \<open>q\<close>
  are the multiples of \<open>ulp = 2 powi (e - 52)\<close>, and the nearest one is \<open>m * ulp\<close> with
  \<open>m\<close> at most \<open>2 ^ 53\<close>. That reaches \<open>2 ^ 1024\<close>, the first power of two beyond the
  doubles, when \<open>e\<close> is 1024 or more, or \<open>e\<close> is 1023 and \<open>m\<close> is rounded up to \<open>2 ^ 53\<close>.
\<close>

definition to_double :: "rat \<Rightarrow> rat option" where
  "to_double q =
     (if q = 0 then Some 0
      else let a = \<bar>q\<bar>;
               e = max (ilog2 a) (- 1022)
           in if 1024 \<le> e then None
              else let ulp = 2 powi (e - 52);
                       m = round_half_even (a / ulp)
                   in if e = 1023 \<and> m = 2 ^ 53 then None
                      else Some (sgn q * (of_int m * ulp)))"

definition int_truediv :: "int \<Rightarrow> int \<Rightarrow> py_error + rat" where
  "int_truediv a b =
     (if b = 0 then Inl ZeroDivisionError
      else case to_double (of_int a / of_int b) of
             None \<Rightarrow> Inl OverflowError
           | Some r \<Rightarrow> Inr r)"


section \<open>\<open>config.py\<close>\<close>

definition SMA_SHORT :: nat where "SMA_SHORT = 10"
definition SMA_LONG :: nat where "SMA_LONG = 20"
definition RSI_PERIOD :: nat where "RSI_PERIOD = 14"
definition CURRENCY_FALLBACK :: string where "CURRENCY_FALLBACK = ''USD''"

section \<open>Pipeline state (\<open>state.py\<close>)\<close>

text \<open>
  \<open>StockAgentState\<close> is a \<open>TypedDict\<close> with \<open>total=False\<close>: every key may be absent, and a
  present key may hold \<open>None\<close>. The code reads all keys but \<open>is_valid\<close> in ways that treat
  both alike, so an \<open>option\<close> models them; \<open>state.get('is_valid', True)\<close> tells an absent
  key from \<open>None\<close>, so that key has the three cases. The dictionaries stored under
  \<open>stock_info\<close> and \<open>technical_indicators\<close> always carry the same keys and are records;
  \<open>trend\<close> is a map from key to label.
\<close>

datatype flag = Absent | Null | Flag bool

record stock_info_dict =
  si_symbol :: string
  si_long_name :: string
  si_current_price :: "rat option"
  si_market_cap :: "int option"
  si_currency :: string
  si_last_volume :: "int option"
  si_analysis_time :: string

text \<open>A \<open>DataFrame\<close> of price bars, by column; \<open>Volume\<close> and the indicator columns may be
  missing.\<close>

record frame =
  col_close :: series
  col_volume :: "series option"
  col_sma_short :: "series option"
  col_sma_long :: "series option"
  col_rsi :: "series option"

record tech_dict =
  ti_sma_short :: "rat option"
  ti_sma_long :: "rat option"
  ti_rsi :: "rat option"
  ti_last_close :: "rat option"
  ti_prev_close :: "rat option"

record state =
  ticker :: "string option"
  stock_info :: "stock_info_dict option"
  historical_data :: "frame option"
  technical_indicators :: "tech_dict option"
  trend :: "(string \<rightharpoonup> string) option"
  report :: "string option"
  is_valid :: flag
  errors :: "string list option"

section \<open>The market data provider\<close>

text \<open>
  The answers of \<open>yfinance\<close> are parameters of the model. A call either raises (with the
  text of the exception) or returns. Values arrive as plain scalars, so \<open>_first_scalar\<close>
  is the identity on them.
\<close>

datatype 'a attempt = Raises string | Returns 'a

record quote_fields =
  q_last_price :: "rat option attempt"
  q_market_cap :: "rat option attempt"
  q_currency :: "string option attempt"

record profile =
  p_market_cap :: "rat option"
  p_currency :: "string option"
  p_long_name :: "string option"
  p_short_name :: "string option"

record gateway =
  history_1d :: "string \<Rightarrow> nat option attempt"
  fast_info :: "string \<Rightarrow> quote_fields attempt"
  info :: "string \<Rightarrow> profile attempt"
  download :: "string \<Rightarrow> frame attempt"
  now :: string

text \<open>
  \<open>history_1d gw sym\<close>: \<open>yf.Ticker(sym).history(period='1d')\<close>, as the number of rows
  (\<open>None\<close> for a \<open>None\<close> result). \<open>download gw sym\<close>: \<open>yf.Ticker(sym)\<close> followed by
  \<open>yf.download(sym, ...).dropna()\<close>. \<open>now gw\<close>: \<open>datetime.now()\<close> formatted with
  \<open>'%Y-%m-%d %H:%M:%S'\<close>.
\<close>

section \<open>\<open>nodes.py\<close>\<close>

definition ensure_errors :: "state \<Rightarrow> state" where
  "ensure_errors s = (case errors s of None \<Rightarrow> s\<lparr>errors := Some []\<rparr> | Some _ \<Rightarrow> s)"

text \<open>\<open>state['errors'].append(msg)\<close>, used after \<open>_ensure_errors\<close>.\<close>

definition append_error :: "string \<Rightarrow> state \<Rightarrow> state" where
  "append_error msg s = s\<lparr>errors := Some ((case errors s of None \<Rightarrow> [] | Some es \<Rightarrow> es) @ [msg])\<rparr>"

definition validate_ticker :: "gateway \<Rightarrow> state \<Rightarrow> state" where
  "validate_ticker gw s0 =
     (let ticker_n = upper (strip (case ticker s0 of None \<Rightarrow> [] | Some t \<Rightarrow> t));
          s = ensure_errors s0
      in if ticker_n = [] then append_error ''Ticker is empty.'' (s\<lparr>is_valid := Flag False\<rparr>)
         else
           (case history_1d gw ticker_n of
              Raises e \<Rightarrow>
                append_error
                  (''L'' @ [CHR 0xE1, CHR 0xBB, CHR 0x97] @ ''i khi x'' @ [CHR 0xC3, CHR 0xA1]
                   @ ''c minh m'' @ [CHR 0xC3, CHR 0xA3] @ '' '' @ ticker_n @ '': '' @ e)
                  (s\<lparr>is_valid := Flag False\<rparr>)
            | Returns hist \<Rightarrow>
                (let valid0 = (case hist of None \<Rightarrow> False | Some rows \<Rightarrow> 0 < rows);
                     valid =
                       (if valid0 then True
                        else (case fast_info gw ticker_n of
                                Raises _ \<Rightarrow> False
                              | Returns fi \<Rightarrow>
                                  (case q_last_price fi of
                                     Raises _ \<Rightarrow> False
                                   | Returns None \<Rightarrow> False
                                   | Returns (Some price) \<Rightarrow> 0 < price)));
                     s1 = s\<lparr>is_valid := Flag valid\<rparr>
                 in if \<not> valid
                    then append_error
                           (''Kh'' @ [CHR 0xC3, CHR 0xB4] @ ''ng t'' @ [CHR 0xC3, CHR 0xAC] @ ''m th''
                            @ [CHR 0xE1, CHR 0xBA, CHR 0xA5] @ ''y m'' @ [CHR 0xC3, CHR 0xA3] @ '' c''
                            @ [CHR 0xE1, CHR 0xBB, CHR 0x95] @ '' phi'' @ [CHR 0xE1, CHR 0xBA, CHR 0xBF]
                            @ ''u: '' @ ticker_n) s1
                    else s1)))"

text \<open>The last entry of a column, \<open>None\<close> when it is \<open>NaN\<close>; every caller has checked that
  the frame has a row.\<close>

definition last_value :: "series \<Rightarrow> rat option" where
  "last_value xs = (if xs = [] then None else last xs)"

text \<open>\<open>int(x)\<close> of a float: truncation towards zero.\<close>

definition int_of_float :: "rat \<Rightarrow> int" where
  "int_of_float x = (if 0 \<le> x then \<lfloor>x\<rfloor> else \<lceil>x\<rceil>)"

text \<open>The three reads of \<open>fast_info\<close> inside one \<open>try\<close>: a read that raises leaves the
  later variables at \<open>None\<close> and keeps the earlier ones.\<close>

definition read_fast_info ::
  "quote_fields attempt \<Rightarrow> rat option \<times> rat option \<times> string option" where
  "read_fast_info r =
     (case r of
        Raises _ \<Rightarrow> (None, None, None)
      | Returns fi \<Rightarrow>
          (case q_last_price fi of
             Raises _ \<Rightarrow> (None, None, None)
           | Returns current_price \<Rightarrow>
               (case q_market_cap fi of
                  Raises _ \<Rightarrow> (current_price, None, None)
                | Returns market_cap \<Rightarrow>
                    (case q_currency fi of
                       Raises _ \<Rightarrow> (current_price, market_cap, None)
                     | Returns currency \<Rightarrow> (current_price, market_cap, currency)))))"

definition fetch_stock_data :: "gateway \<Rightarrow> state \<Rightarrow> py_error + state" where
  "fetch_stock_data gw s0 =
     (case ticker s0 of
        None \<Rightarrow> Inl (KeyError ''ticker'')
      | Some t \<Rightarrow>
          (let ticker_u = upper t; s = ensure_errors s0 in
           case download gw ticker_u of
             Raises e \<Rightarrow>
               Inr (append_error
                      (''L'' @ [CHR 0xE1, CHR 0xBB, CHR 0x97] @ ''i khi l'' @ [CHR 0xE1, CHR 0xBA, CHR 0xA5]
                       @ ''y d'' @ [CHR 0xE1, CHR 0xBB, CHR 0xAF] @ '' li'' @ [CHR 0xE1, CHR 0xBB, CHR 0x87]
                       @ ''u cho '' @ ticker_u @ '': '' @ e) s)
           | Returns hist \<Rightarrow>
               if col_close hist = []
               then Inr (append_error
                      (''Kh'' @ [CHR 0xC3, CHR 0xB4] @ ''ng l'' @ [CHR 0xE1, CHR 0xBA, CHR 0xA5] @ ''y ''
                       @ [CHR 0xC4, CHR 0x91, CHR 0xC6, CHR 0xB0, CHR 0xE1, CHR 0xBB, CHR 0xA3] @ ''c d''
                       @ [CHR 0xE1, CHR 0xBB, CHR 0xAF] @ '' li'' @ [CHR 0xE1, CHR 0xBB, CHR 0x87] @ ''u l''
                       @ [CHR 0xE1, CHR 0xBB, CHR 0x8B] @ ''ch s'' @ [CHR 0xE1, CHR 0xBB, CHR 0xAD] @ ''.'') s)
               else
                 (let (price0, cap0, currency0) = read_fast_info (fast_info gw ticker_u);
                      current_price =
                        (case price0 of None \<Rightarrow> last_value (col_close hist) | Some p \<Rightarrow> Some p);
                      (market_cap, currency1, long_name) =
                        (case info gw ticker_u of
                           Raises _ \<Rightarrow> (cap0, currency0, None)
                         | Returns pr \<Rightarrow>
                             (if cap0 = None then p_market_cap pr else cap0,
                              if currency0 = None then p_currency pr else currency0,
                              if p_long_name pr \<noteq> None then p_long_name pr else p_short_name pr));
                      volume =
                        (case col_volume hist of
                           None \<Rightarrow> None
                         | Some vs \<Rightarrow> map_option int_of_float (last_value vs));
                      currency =
                        (case currency1 of
                           None \<Rightarrow> CURRENCY_FALLBACK
                         | Some c \<Rightarrow> if c = [] then CURRENCY_FALLBACK else c)
                  in Inr (s\<lparr>stock_info := Some
                               \<lparr>si_symbol = ticker_u,
                                si_long_name =
                                  (case long_name of
                                     None \<Rightarrow> ticker_u
                                   | Some n \<Rightarrow> if n = [] then ticker_u else n),
                                si_current_price = current_price,
                                si_market_cap = map_option int_of_float market_cap,
                                si_currency = currency,
                                si_last_volume = volume,
                                si_analysis_time = now gw\<rparr>,
                             historical_data := Some hist\<rparr>))))"

definition calculate_technical_indicators :: "state \<Rightarrow> state" where
  "calculate_technical_indicators s0 =
     (let s = ensure_errors s0;
          missing = ''Thi'' @ [CHR 0xE1, CHR 0xBA, CHR 0xBF] @ ''u d'' @ [CHR 0xE1, CHR 0xBB, CHR 0xAF]
            @ '' li'' @ [CHR 0xE1, CHR 0xBB, CHR 0x87] @ ''u l'' @ [CHR 0xE1, CHR 0xBB, CHR 0x8B] @ ''ch s''
            @ [CHR 0xE1, CHR 0xBB, CHR 0xAD] @ '' '' @ [CHR 0xC4, CHR 0x91, CHR 0xE1, CHR 0xBB, CHR 0x83]
            @ '' t'' @ [CHR 0xC3, CHR 0xAD] @ ''nh ch'' @ [CHR 0xE1, CHR 0xBB, CHR 0x89] @ '' b''
            @ [CHR 0xC3, CHR 0xA1] @ ''o.''
      in case historical_data s of
           None \<Rightarrow> append_error missing s
         | Some hist \<Rightarrow>
             if col_close hist = [] then append_error missing s
             else
               (let close = col_close hist;
                    sma_short = sma close SMA_SHORT;
                    sma_long = sma close SMA_LONG;
                    rsi_series = rsi close RSI_PERIOD;
                    df = hist\<lparr>col_sma_short := Some sma_short, col_sma_long := Some sma_long,
                              col_rsi := Some rsi_series\<rparr>;
                    tech = \<lparr>ti_sma_short = last_value sma_short,
                            ti_sma_long = last_value sma_long,
                            ti_rsi = last_value rsi_series,
                            ti_last_close = last_value close,
                            ti_prev_close =
                              (if 2 \<le> length close then close ! (length close - 2) else None)\<rparr>
                in s\<lparr>historical_data := Some df, technical_indicators := Some tech\<rparr>))"

text \<open>\<open>tech.get(key)\<close> with \<open>tech = state.get('technical_indicators') or {}\<close>.\<close>

definition tech_get :: "(tech_dict \<Rightarrow> rat option) \<Rightarrow> state \<Rightarrow> rat option" where
  "tech_get field s = (case technical_indicators s of None \<Rightarrow> None | Some tech \<Rightarrow> field tech)"

definition analyze_market_trend :: "state \<Rightarrow> state" where
  "analyze_market_trend s0 =
     (let s = ensure_errors s0;
          price = tech_get ti_last_close s;
          sma_short_v = tech_get ti_sma_short s;
          sma_long_v = tech_get ti_sma_long s;
          rsi_v = tech_get ti_rsi s;
          (short_term, price_vs) =
            (case (price, sma_short_v, sma_long_v) of
               (Some p, Some sh, Some lo) \<Rightarrow>
                 (if sh > lo \<and> p > sh then ''BULLISH '' @ [CHR 0xE2, CHR 0x86, CHR 0x97]
                  else if sh < lo \<and> p < sh then ''BEARISH '' @ [CHR 0xE2, CHR 0x86, CHR 0x98]
                  else ''NEUTRAL '' @ [CHR 0xE2, CHR 0x86, CHR 0x92],
                  if p > sh \<and> p > lo then ''Above both moving averages''
                  else if p < sh \<and> p < lo then ''Below both moving averages''
                  else ''center both moving averages'')
             | _ \<Rightarrow>
                 (''NEUTRAL'',
                  ''Kh'' @ [CHR 0xC3, CHR 0xB4] @ ''ng x'' @ [CHR 0xC3, CHR 0xA1] @ ''c ''
                  @ [CHR 0xC4, CHR 0x91, CHR 0xE1, CHR 0xBB, CHR 0x8B] @ ''nh''));
          prev_close = tech_get ti_prev_close s;
          momentum =
            (case (prev_close, price) of
               (Some pc, Some p) \<Rightarrow> if p \<ge> pc then ''POSITIVE'' else ''NEGATIVE''
             | _ \<Rightarrow> ''NEUTRAL'');
          notes =
            (case rsi_v of
               None \<Rightarrow> []
             | Some r \<Rightarrow>
                 if r > 70 then [''RSI indicates overbought conditions'']
                 else if r < 30 then [''RSI indicates oversale conditions'']
                 else [])
      in s\<lparr>trend := Some [''short_term'' \<mapsto> short_term, ''price_vs_sma'' \<mapsto> price_vs,
                           ''momentum'' \<mapsto> momentum, ''notes'' \<mapsto> join ''; '' notes]\<rparr>)"


datatype number = PyInt int | PyFloat rat

definition format_currency :: "number option \<Rightarrow> string \<Rightarrow> string" where
  "format_currency v currency =
     (case v of
        None \<Rightarrow> ''N/A''
      | Some (PyFloat x) \<Rightarrow> currency @ '' '' @ format_float True x
      | Some (PyInt n) \<Rightarrow> currency @ '' '' @ format_int n)"

definition caps :: "(int \<times> string) list" where
  "caps = [(1000000000000, ''T''), (1000000000, ''B''), (1000000, ''M'')]"

text \<open>The \<open>for thresh, suffix in caps\<close> loop of \<open>_format_market_cap\<close>, with the statement
  after the loop as its base case.\<close>

fun format_market_cap_loop :: "(int \<times> string) list \<Rightarrow> int \<Rightarrow> string \<Rightarrow> py_error + string" where
  "format_market_cap_loop [] market_cap currency = Inr (currency @ '' '' @ format_int market_cap)"
| "format_market_cap_loop ((thresh, suffix) # rest) market_cap currency =
     (if market_cap \<ge> thresh
      then (case int_truediv market_cap thresh of
              Inl e \<Rightarrow> Inl e
            | Inr q \<Rightarrow> Inr (currency @ '' '' @ format_float False q @ suffix))
      else format_market_cap_loop rest market_cap currency)"

definition format_market_cap :: "int option \<Rightarrow> string \<Rightarrow> py_error + string" where
  "format_market_cap market_cap currency =
     (case market_cap of
        None \<Rightarrow> Inr ''N/A''
      | Some m \<Rightarrow> format_market_cap_loop caps m currency)"

text \<open>The locals of \<open>generate_recommendation\<close> on its main path, as functions of the state.\<close>

definition info_get :: "(stock_info_dict \<Rightarrow> 'a option) \<Rightarrow> state \<Rightarrow> 'a option" where
  "info_get field s = (case stock_info s of None \<Rightarrow> None | Some i \<Rightarrow> field i)"

definition symbol_of :: "state \<Rightarrow> string" where
  "symbol_of s =
     (let fallback = (case ticker s of None \<Rightarrow> [] | Some t \<Rightarrow> t) in
      case stock_info s of
        None \<Rightarrow> fallback
      | Some i \<Rightarrow> if si_symbol i \<noteq> [] then si_symbol i else fallback)"

definition long_name_of :: "state \<Rightarrow> string" where
  "long_name_of s =
     (case stock_info s of
        None \<Rightarrow> symbol_of s
      | Some i \<Rightarrow> if si_long_name i \<noteq> [] then si_long_name i else symbol_of s)"

text \<open>\<open>info.get('current_price') or tech.get('last_close')\<close>: \<open>None\<close> and \<open>0.0\<close> are the falsy
  prices.\<close>

definition current_price_of :: "state \<Rightarrow> rat option" where
  "current_price_of s =
     (case info_get si_current_price s of
        None \<Rightarrow> tech_get ti_last_close s
      | Some p \<Rightarrow> if p \<noteq> 0 then Some p else tech_get ti_last_close s)"

definition currency_of :: "state \<Rightarrow> string" where
  "currency_of s = (case stock_info s of None \<Rightarrow> ''USD'' | Some i \<Rightarrow> si_currency i)"

definition analysis_time_of :: "string \<Rightarrow> state \<Rightarrow> string" where
  "analysis_time_of now_str s =
     (case stock_info s of None \<Rightarrow> now_str | Some i \<Rightarrow> si_analysis_time i)"

text \<open>\<open>trend.get(key, default)\<close> with \<open>trend = state.get('trend') or {}\<close>.\<close>

definition trend_get :: "string \<Rightarrow> state \<Rightarrow> string option" where
  "trend_get key s = (case trend s of None \<Rightarrow> None | Some m \<Rightarrow> m key)"

definition trend_get_default :: "string \<Rightarrow> string \<Rightarrow> state \<Rightarrow> string" where
  "trend_get_default key dflt s = (case trend_get key s of None \<Rightarrow> dflt | Some v \<Rightarrow> v)"

text \<open>The decision rule: the tests of its \<open>if\<close> and \<open>elif\<close>, and the pair
  \<open>(decision, reasons)\<close> it leaves.\<close>

definition buy_condition :: "rat \<Rightarrow> rat \<Rightarrow> rat \<Rightarrow> rat \<Rightarrow> bool" where
  "buy_condition current_price sma10 sma20 rsi_v =
     ((current_price > sma10 \<and> sma10 > sma20) \<and> (30 \<le> rsi_v \<and> rsi_v \<le> 70))"

definition sell_condition :: "rat \<Rightarrow> rat \<Rightarrow> rat \<Rightarrow> rat \<Rightarrow> bool" where
  "sell_condition current_price sma10 sma20 rsi_v =
     ((current_price < sma20 \<and> sma20 < sma10) \<and> (rsi_v > 70))"

definition decide ::
  "rat option \<Rightarrow> rat option \<Rightarrow> rat option \<Rightarrow> rat option \<Rightarrow> string \<times> string list" where
  "decide current_price sma10 sma20 rsi_v =
     (case (current_price, sma10, sma20, rsi_v) of
        (Some cp, Some s10, Some s20, Some r) \<Rightarrow>
          if buy_condition cp s10 s20 r
          then (''BUY'', [''price > SMA10 > SMA20 v'' @ [CHR 0xC3, CHR 0xA0] @ '' RSI within 30-70 ''])
          else if sell_condition cp s10 s20 r
          then (''SELL'', [''price < SMA20 < SMA10 v'' @ [CHR 0xC3, CHR 0xA0] @ '' RSI > 70 ''])
          else (''HOLD'', [''not qualifify to buy/sale''])
      | _ \<Rightarrow> (''HOLD'', [''Lack of sufficient indicator data to make a decision'']))"

text \<open>For comparison only: the same rule with the SELL test tried before the BUY test.\<close>

definition decide_sell_first ::
  "rat option \<Rightarrow> rat option \<Rightarrow> rat option \<Rightarrow> rat option \<Rightarrow> string \<times> string list" where
  "decide_sell_first current_price sma10 sma20 rsi_v =
     (case (current_price, sma10, sma20, rsi_v) of
        (Some cp, Some s10, Some s20, Some r) \<Rightarrow>
          if sell_condition cp s10 s20 r
          then (''SELL'', [''price < SMA20 < SMA10 v'' @ [CHR 0xC3, CHR 0xA0] @ '' RSI > 70 ''])
          else if buy_condition cp s10 s20 r
          then (''BUY'', [''price > SMA10 > SMA20 v'' @ [CHR 0xC3, CHR 0xA0] @ '' RSI within 30-70 ''])
          else (''HOLD'', [''not qualifify to buy/sale''])
      | _ \<Rightarrow> (''HOLD'', [''Lack of sufficient indicator data to make a decision'']))"

definition recommendation :: "state \<Rightarrow> string \<times> string list" where
  "recommendation s =
     decide (current_price_of s) (tech_get ti_sma_short s) (tech_get ti_sma_long s) (tech_get ti_rsi s)"

definition bullet :: string where
  "bullet = [CHR 0xE2, CHR 0x80, CHR 0xA2]"

text \<open>The list \<open>lines\<close> that \<open>generate_recommendation\<close> builds.\<close>

definition report_lines :: "string \<Rightarrow> state \<Rightarrow> py_error + string list" where
  "report_lines now_str s =
     (let symbol = symbol_of s;
          long_name = long_name_of s;
          current_price = current_price_of s;
          sma10 = tech_get ti_sma_short s;
          sma20 = tech_get ti_sma_long s;
          rsi_v = tech_get ti_rsi s;
          (decision, reasons) = recommendation s;
          currency = currency_of s
      in case format_market_cap (info_get si_market_cap s) currency of
           Inl e \<Rightarrow> Inl e
         | Inr market_cap_fmt \<Rightarrow>
             (let current_price_fmt = format_currency (map_option PyFloat current_price) currency;
                  analysis_time = analysis_time_of now_str s;
                  errs = (case errors s of None \<Rightarrow> [] | Some es \<Rightarrow> es)
              in Inr
                ([replicate 48 (CHR ''=''),
                  ''Stock Analysis Report'',
                  replicate 48 (CHR ''=''),
                  ''stock: '' @ long_name @ '' ('' @ symbol @ '')'',
                  ''current price: '' @ current_price_fmt,
                  ''maeket cap: '' @ market_cap_fmt,
                  ''analysis_time: '' @ analysis_time,
                  [],
                  ''Technical Indicator'',
                  replicate 20 (CHR ''-''),
                  bullet @ '' SMA 10 days: '' @ format_currency (map_option PyFloat sma10) currency,
                  bullet @ '' SMA 20 day: '' @ format_currency (map_option PyFloat sma20) currency,
                  (case rsi_v of
                     Some r \<Rightarrow> bullet @ '' RSI (14 days): '' @ format_float False r
                   | None \<Rightarrow> bullet @ '' RSI (14 day): N/A''),
                  [],
                  ''trend analysiss'',
                  replicate 20 (CHR ''-''),
                  bullet @ '' short trend: '' @ trend_get_default ''short_term'' ''N/A'' s,
                  bullet @ '' Price compared to SMA : '' @ trend_get_default ''price_vs_sma'' ''N/A'' s,
                  bullet @ '' Momentum: '' @ trend_get_default ''momentum'' ''N/A'' s]
                 @ (case trend_get ''notes'' s of
                      None \<Rightarrow> []
                    | Some n \<Rightarrow> if n \<noteq> [] then [bullet @ '' notes: '' @ n] else [])
                 @ [[],
                    ''Final Recommendation'',
                    replicate 20 (CHR ''-''),
                    bullet @ '' decision: '' @ decision]
                 @ (if reasons \<noteq> [] then [bullet @ '' reason: '' @ join '', '' reasons] else [])
                 @ (if errs \<noteq> [] then [[], ''wraning: '' @ join ''; '' errs] else []))))"

text \<open>\<open>not state.get('is_valid', True)\<close>.\<close>

definition not_valid :: "state \<Rightarrow> bool" where
  "not_valid s = (case is_valid s of Absent \<Rightarrow> False | Null \<Rightarrow> True | Flag b \<Rightarrow> \<not> b)"

definition generate_recommendation :: "string \<Rightarrow> state \<Rightarrow> py_error + state" where
  "generate_recommendation now_str s0 =
     (let s = ensure_errors s0 in
      if not_valid s
      then (let ticker_v = (case ticker s of None \<Rightarrow> ''UNKNOWN'' | Some t \<Rightarrow> t);
                err = join ''; '' (case errors s of None \<Rightarrow> [] | Some es \<Rightarrow> es)
            in Inr (s\<lparr>report := Some
                      (''M'' @ [CHR 0xC3, CHR 0xA3] @ '' c'' @ [CHR 0xE1, CHR 0xBB, CHR 0x95] @ '' phi''
                       @ [CHR 0xE1, CHR 0xBA, CHR 0xBF] @ ''u kh'' @ [CHR 0xC3, CHR 0xB4] @ ''ng h''
                       @ [CHR 0xE1, CHR 0xBB, CHR 0xA3] @ ''p l'' @ [CHR 0xE1, CHR 0xBB, CHR 0x87] @ '': ''
                       @ ticker_v @ ''. L'' @ [CHR 0xE1, CHR 0xBB, CHR 0x97] @ ''i: '' @ err)\<rparr>))
      else (case report_lines now_str s of
              Inl e \<Rightarrow> Inl e
            | Inr lines \<Rightarrow> Inr (s\<lparr>report := Some (join [] lines)\<rparr>)))"

section \<open>\<open>graph.py\<close> and \<open>main.py\<close>\<close>

text \<open>\<open>route_after_validate\<close> names the next node; only a true \<open>is_valid\<close> is truthy.\<close>

definition route_after_validate :: "state \<Rightarrow> string" where
  "route_after_validate s =
     (if (case is_valid s of Flag b \<Rightarrow> b | _ \<Rightarrow> False)
      then ''fetch_stock_data'' else ''generate_recommendation'')"

text \<open>
  The compiled graph: \<open>validate_ticker\<close>, the conditional edge, then either the chain
  \<open>fetch_stock_data\<close>, \<open>calculate_technical_indicators\<close>, \<open>analyze_market_trend\<close>,
  \<open>generate_recommendation\<close>, or \<open>generate_recommendation\<close> at once. Every node returns the
  whole state, so running the graph is composing the nodes; an exception that leaves a node
  ends the run.
\<close>

definition invoke :: "gateway \<Rightarrow> state \<Rightarrow> py_error + state" where
  "invoke gw s0 =
     (let s1 = validate_ticker gw s0 in
      if route_after_validate s1 = ''fetch_stock_data''
      then (case fetch_stock_data gw s1 of
              Inl e \<Rightarrow> Inl e
            | Inr s2 \<Rightarrow>
                generate_recommendation (now gw)
                  (analyze_market_trend (calculate_technical_indicators s2)))
      else generate_recommendation (now gw) s1)"

definition initial_state :: "string \<Rightarrow> state" where
  "initial_state t =
     \<lparr>ticker = Some t, stock_info = None, historical_data = None, technical_indicators = None,
      trend = None, report = None, is_valid = Absent, errors = None\<rparr>"

definition run_agent :: "gateway \<Rightarrow> string \<Rightarrow> py_error + string" where
  "run_agent gw t =
     (case invoke gw (initial_state t) of
        Inl e \<Rightarrow> Inl e
      | Inr final_state \<Rightarrow>
          Inr (case report final_state of None \<Rightarrow> ''No report generated.'' | Some r \<Rightarrow> r))"

section \<open>Concrete inputs\<close>

text \<open>
  A provider that knows the symbol \<open>AAPL\<close> only: 21 daily closes that zigzag upwards
  (so that the short average is above the long one and the oscillator is 60), a live quote
  of 113 and a market capitalisation of 2,500,000,000 USD. Any other symbol has no trading
  session and no quote. The theorems below run the pipeline on it.
\<close>

definition example_closes :: "rat list" where
  "example_closes =
     [100, 103, 101, 104, 102, 105, 103, 106, 104, 107, 105, 108, 106, 109, 107, 110, 108,
      111, 109, 112, 110]"

definition example_frame :: frame where
  "example_frame =
     \<lparr>col_close = map Some example_closes, col_volume = Some (map (\<lambda>_. Some 1000) example_closes),
      col_sma_short = None, col_sma_long = None, col_rsi = None\<rparr>"

definition empty_frame :: frame where
  "empty_frame =
     \<lparr>col_close = [], col_volume = Some [], col_sma_short = None, col_sma_long = None,
      col_rsi = None\<rparr>"

definition example_gateway :: gateway where
  "example_gateway =
     \<lparr>history_1d = (\<lambda>sym. if sym = ''AAPL'' then Returns (Some 1) else Returns (Some 0)),
      fast_info =
        (\<lambda>sym. if sym = ''AAPL''
               then Returns \<lparr>q_last_price = Returns (Some 113),
                             q_market_cap = Returns (Some 2500000000),
                             q_currency = Returns (Some ''USD'')\<rparr>
               else Raises ''no quote''),
      info =
        (\<lambda>sym. if sym = ''AAPL''
               then Returns \<lparr>p_market_cap = Some 2500000000, p_currency = Some ''USD'',
                             p_long_name = Some ''Apple Inc.'', p_short_name = Some ''Apple''\<rparr>
               else Raises ''no profile''),
      download = (\<lambda>sym. if sym = ''AAPL'' then Returns example_frame else Returns empty_frame),
      now = ''2024-01-02 03:04:05''\<rparr>"

text \<open>A state as the Indicator stage leaves it, with a quoted price of exactly 0.\<close>

definition example_tech :: tech_dict where
  "example_tech =
     \<lparr>ti_sma_short = Some 109, ti_sma_long = Some (213 / 2), ti_rsi = Some 60,
      ti_last_close = Some 110, ti_prev_close = Some 112\<rparr>"

definition example_info :: stock_info_dict where
  "example_info =
     \<lparr>si_symbol = ''AAPL'', si_long_name = ''Apple Inc.'', si_current_price = Some 0,
      si_market_cap = Some 2500000000, si_currency = ''USD'', si_last_volume = Some 1000,
      si_analysis_time = ''2024-01-02 03:04:05''\<rparr>"

definition example_state :: state where
  "example_state =
     \<lparr>ticker = Some ''aapl'', stock_info = Some example_info, historical_data = None,
      technical_indicators = Some example_tech, trend = None, report = None,
      is_valid = Flag True, errors = Some []\<rparr>"

lemma length_rolling_mean [simp]: "length (rolling_mean w m xs) = length xs"
  by (simp add: rolling_mean_def)

lemma observations_map_Some [simp]: "observations (map Some ys) = ys"
  by (induction ys) (simp_all add: observations_def)

lemma window_at_map_Some:
  "window_at w (map Some xs) i = map Some (drop (i + 1 - w) (take (i + 1) xs))"
  by (simp add: window_at_def take_map drop_map)

lemma sum_list_drop_take:
  fixes xs :: "rat list"
  assumes "b \<le> length xs" "a \<le> b"
  shows "sum_list (drop a (take b xs)) = (\<Sum>k = a..<b. xs ! k)"
proof -
  have "sum_list (drop a (take b xs)) = (\<Sum>j = 0..<b - a. drop a (take b xs) ! j)"
    using assms by (simp add: sum_list_sum_nth min_def)
  also have "\<dots> = (\<Sum>j = 0..<b - a. xs ! (a + j))"
    using assms by (intro sum.cong) auto
  also have "\<dots> = (\<Sum>k = a..<b. xs ! k)"
    using assms sum.shift_bounds_nat_ivl[of "\<lambda>k. xs ! k" 0 a "b - a"] by (simp add: add.commute)
  finally show ?thesis .
qed

lemma sma_nth:
  assumes "1 \<le> w" "i < length xs"
  shows "sma (map Some xs) w ! i =
           (if i < w - 1 then None else Some ((\<Sum>k = i + 1 - w..i. xs ! k) / of_nat w))"
proof (cases "i < w - 1")
  case True
  then have "length (drop (i + 1 - w) (take (i + 1) xs)) < w"
    using assms by simp
  then show ?thesis
    using True assms by (simp add: sma_def rolling_mean_def mean_min_periods_def window_at_map_Some)
next
  case False
  then have len: "length (drop (i + 1 - w) (take (i + 1) xs)) = w"
    using assms by (auto simp: min_def)
  have "sum_list (drop (i + 1 - w) (take (i + 1) xs)) = (\<Sum>k = i + 1 - w..<i + 1. xs ! k)"
    using assms by (intro sum_list_drop_take) auto
  also have "{i + 1 - w..<i + 1} = {i + 1 - w..i}" by auto
  finally have s: "sum_list (drop (i + 1 - w) (take (i + 1) xs)) = (\<Sum>k = i + 1 - w..i. xs ! k)" .
  have ne: "drop (i + 1 - w) (take (i + 1) xs) \<noteq> []"
    using len assms by auto
  show ?thesis
    using False assms len s ne
    by (simp add: sma_def rolling_mean_def mean_min_periods_def window_at_map_Some Let_def)
qed

text \<open>
  Claim C2. For a numeric series \<open>xs\<close> (no \<open>NaN\<close>) and a window \<open>w \<ge> 1\<close>, \<open>sma\<close> returns a
  series of the same length; position \<open>i\<close> is null for \<open>i < w - 1\<close> (so everywhere, when the
  series is shorter than \<open>w\<close>) and is the arithmetic mean of the \<open>w\<close> values
  \<open>xs ! (i + 1 - w), ..., xs ! i\<close> otherwise.
\<close>

theorem sma_window_mean:
  assumes "1 \<le> w"
  shows "length (sma (map Some xs) w) = length xs \<and>
         (\<forall>i<length xs. sma (map Some xs) w ! i =
            (if i < w - 1 then None else Some ((\<Sum>k = i + 1 - w..i. xs ! k) / of_nat w)))"
  using assms sma_nth by (simp add: sma_def)

text \<open>
  Witness for C2: the window 2 over \<open>[1, 2, 3, 4]\<close>.
\<close>

theorem sma_window_mean_witness:
  "(1::nat) \<le> 2 \<and> sma (map Some [1, 2, 3, 4]) 2 = [None, Some (3 / 2), Some (5 / 2), Some (7 / 2)]
   \<and> length (sma (map Some [1, 2, 3, 4]) 2) = length [1::rat, 2, 3, 4]
   \<and> sma (map Some [1, 2, 3, 4]) 2 ! 3 = Some ((\<Sum>k = 2..3. [1, 2, 3, 4] ! k) / 2)"
proof -
  have h: "(1::nat) \<le> 2" by simp
  have e: "sma (map Some [1, 2, 3, 4]) 2 = [None, Some (3 / 2), Some (5 / 2), Some (7 / 2)]"
    by code_simp
  from sma_window_mean [OF h, of "[1, 2, 3, 4]"]
  have "sma (map Some [1, 2, 3, 4]) 2 ! 3 = Some ((\<Sum>k = 2..3. [1, 2, 3, 4 :: rat] ! k) / 2)"
    by simp
  with h e show ?thesis by simp
qed

subsection \<open>bfill\<close>

lemma length_bfill [simp]: "length (bfill xs) = length xs"
  by (induction xs) (simp_all add: Let_def)

lemma bfill_Cons_nth0:
  "bfill (x # xs) ! 0 = (case x of Some v \<Rightarrow> Some v | None \<Rightarrow> (if xs = [] then None else bfill xs ! 0))"
proof (cases "bfill xs")
  case Nil
  then have "xs = []" using length_bfill[of xs] by simp
  then show ?thesis by (simp split: option.splits)
next
  case (Cons y ys)
  then have "xs \<noteq> []" by auto
  with Cons show ?thesis by (simp add: Let_def split: option.splits)
qed

lemma bfill_Cons_nth_Suc: "bfill (x # xs) ! Suc i = bfill xs ! i"
  by (simp add: Let_def)

lemma bfill_defined_iff:
  "i < length xs \<Longrightarrow>
     (bfill xs ! i \<noteq> None) = (\<exists>j. i \<le> j \<and> j < length xs \<and> xs ! j \<noteq> None)"
proof (induction xs arbitrary: i)
  case Nil
  then show ?case by simp
next
  case (Cons x xs)
  show ?case
  proof (cases i)
    case 0
    show ?thesis
    proof (cases x)
      case (Some v)
      then have "bfill (x # xs) ! 0 \<noteq> None" by (simp add: bfill_Cons_nth0 del: bfill.simps)
      moreover have "\<exists>j. 0 \<le> j \<and> j < length (x # xs) \<and> (x # xs) ! j \<noteq> None"
        using Some by (intro exI[of _ 0]) simp
      ultimately show ?thesis using 0 by simp
    next
      case None
      show ?thesis
      proof (cases "xs = []")
        case True
        with None 0 show ?thesis by (auto simp: bfill_Cons_nth0 simp del: bfill.simps)
      next
        case False
        then have l: "0 < length xs" by simp
        have "(bfill (x # xs) ! 0 \<noteq> None) = (bfill xs ! 0 \<noteq> None)"
          using None False by (simp add: bfill_Cons_nth0 del: bfill.simps)
        also have "\<dots> = (\<exists>j. 0 \<le> j \<and> j < length xs \<and> xs ! j \<noteq> None)"
          using Cons.IH[OF l] .
        also have "\<dots> = (\<exists>j. 0 \<le> j \<and> j < length (x # xs) \<and> (x # xs) ! j \<noteq> None)"
        proof
          assume "\<exists>j. 0 \<le> j \<and> j < length xs \<and> xs ! j \<noteq> None"
          then obtain j where "j < length xs" "xs ! j \<noteq> None" by blast
          then show "\<exists>j. 0 \<le> j \<and> j < length (x # xs) \<and> (x # xs) ! j \<noteq> None"
            by (intro exI[of _ "Suc j"]) simp
        next
          assume "\<exists>j. 0 \<le> j \<and> j < length (x # xs) \<and> (x # xs) ! j \<noteq> None"
          then obtain j where j: "j < length (x # xs)" "(x # xs) ! j \<noteq> None" by blast
          with None obtain j' where "j = Suc j'" by (cases j) auto
          with j show "\<exists>j. 0 \<le> j \<and> j < length xs \<and> xs ! j \<noteq> None"
            by (intro exI[of _ j']) simp
        qed
        finally show ?thesis using 0 by simp
      qed
    qed
  next
    case (Suc i')
    then have l: "i' < length xs" using Cons.prems by simp
    have "(bfill (x # xs) ! i \<noteq> None) = (bfill xs ! i' \<noteq> None)"
      using Suc by (simp add: bfill_Cons_nth_Suc del: bfill.simps)
    also have "\<dots> = (\<exists>j. i' \<le> j \<and> j < length xs \<and> xs ! j \<noteq> None)"
      using Cons.IH[OF l] .
    also have "\<dots> = (\<exists>j. i \<le> j \<and> j < length (x # xs) \<and> (x # xs) ! j \<noteq> None)"
    proof
      assume "\<exists>j. i' \<le> j \<and> j < length xs \<and> xs ! j \<noteq> None"
      then obtain j where "i' \<le> j" "j < length xs" "xs ! j \<noteq> None" by blast
      then show "\<exists>j. i \<le> j \<and> j < length (x # xs) \<and> (x # xs) ! j \<noteq> None"
        using Suc by (intro exI[of _ "Suc j"]) simp
    next
      assume "\<exists>j. i \<le> j \<and> j < length (x # xs) \<and> (x # xs) ! j \<noteq> None"
      then obtain j where j: "i \<le> j" "j < length (x # xs)" "(x # xs) ! j \<noteq> None" by blast
      with Suc obtain j' where "j = Suc j'" by (cases j) auto
      with j Suc show "\<exists>j. i' \<le> j \<and> j < length xs \<and> xs ! j \<noteq> None"
        by (intro exI[of _ j']) simp
    qed
    finally show ?thesis .
  qed
qed

lemma bfill_first_value:
  "i \<le> j \<Longrightarrow> j < length xs \<Longrightarrow> xs ! j = Some v \<Longrightarrow>
     (\<forall>k. i \<le> k \<and> k < j \<longrightarrow> xs ! k = None) \<Longrightarrow> bfill xs ! i = Some v"
proof (induction xs arbitrary: i j)
  case Nil
  then show ?case by simp
next
  case (Cons x xs)
  show ?case
  proof (cases i)
    case 0
    show ?thesis
    proof (cases j)
      case j0: 0
      with Cons.prems 0 show ?thesis by (simp add: bfill_Cons_nth0 del: bfill.simps)
    next
      case (Suc j')
      then have x: "x = None" using Cons.prems(4) 0 by auto
      have ne: "xs \<noteq> []" using Cons.prems(2) Suc by auto
      have "bfill xs ! 0 = Some v"
      proof (rule Cons.IH[of 0 j'])
        show "0 \<le> j'" by simp
        show "j' < length xs" using Cons.prems(2) Suc by simp
        show "xs ! j' = Some v" using Cons.prems(3) Suc by simp
        show "\<forall>k. 0 \<le> k \<and> k < j' \<longrightarrow> xs ! k = None"
        proof (intro allI impI)
          fix k assume "0 \<le> k \<and> k < j'"
          then have "(x # xs) ! Suc k = None" using Cons.prems(4) 0 Suc by auto
          then show "xs ! k = None" by simp
        qed
      qed
      with x ne 0 show ?thesis by (simp add: bfill_Cons_nth0 del: bfill.simps)
    qed
  next
    case (Suc i')
    then obtain j' where j': "j = Suc j'" using Cons.prems(1) by (cases j) auto
    have "bfill xs ! i' = Some v"
    proof (rule Cons.IH[of i' j'])
      show "i' \<le> j'" using Cons.prems(1) Suc j' by simp
      show "j' < length xs" using Cons.prems(2) j' by simp
      show "xs ! j' = Some v" using Cons.prems(3) j' by simp
      show "\<forall>k. i' \<le> k \<and> k < j' \<longrightarrow> xs ! k = None"
      proof (intro allI impI)
        fix k assume "i' \<le> k \<and> k < j'"
        then have "(x # xs) ! Suc k = None" using Cons.prems(4) Suc j' by auto
        then show "xs ! k = None" by simp
      qed
    qed
    with Suc show ?thesis by (simp add: bfill_Cons_nth_Suc del: bfill.simps)
  qed
qed

lemma bfill_Some_in_set: "Some v \<in> set (bfill xs) \<Longrightarrow> Some v \<in> set xs"
proof (induction xs)
  case Nil
  then show ?case by simp
next
  case (Cons x xs)
  show ?case
  proof (cases "bfill xs")
    case Nil
    with Cons show ?thesis by (auto simp: Let_def split: option.splits)
  next
    case (Cons y ys)
    then have "y \<in> set (bfill xs)" by simp
    with Cons.prems Cons.IH Cons show ?thesis
      by (auto simp: Let_def split: option.splits)
  qed
qed


subsection \<open>rolling mean\<close>

lemma length_window_at: "i < length xs \<Longrightarrow> length (window_at w xs i) = min (i + 1) w"
  by (auto simp: window_at_def min_def)

lemma length_observations_le: "length (observations ys) \<le> length ys"
  by (simp add: observations_def)

lemma length_observations_less:
  "None \<in> set ys \<Longrightarrow> length (observations ys) < length ys"
  unfolding observations_def length_map
  by (rule length_filter_less[of None]) simp_all

lemma observations_all_Some:
  "None \<notin> set ys \<Longrightarrow> observations ys = map the ys"
proof (induction ys)
  case Nil
  then show ?case by (simp add: observations_def)
next
  case (Cons a ys)
  then obtain y where "a = Some y" by (cases a) auto
  with Cons show ?case by (simp add: observations_def)
qed

lemma rolling_mean_nth:
  "i < length xs \<Longrightarrow> rolling_mean w m xs ! i = mean_min_periods m (window_at w xs i)"
  by (simp add: rolling_mean_def)

lemma window_at_nth:
  assumes "i < length xs" "j < min (i + 1) w"
  shows "window_at w xs i ! j = xs ! (i + 1 - w + j)"
proof -
  have b: "i + 1 - w + j < i + 1" using assms by arith
  have "i + 1 - w \<le> length (take (i + 1) xs)" using assms by simp
  then have "window_at w xs i ! j = take (i + 1) xs ! (i + 1 - w + j)"
    unfolding window_at_def by (rule nth_drop)
  also have "\<dots> = xs ! (i + 1 - w + j)" using b by (rule nth_take)
  finally show ?thesis .
qed

lemma window_at_set:
  "i < length xs \<Longrightarrow> set (window_at w xs i) = {xs ! k | k. i + 1 - w \<le> k \<and> k \<le> i}"
proof -
  assume i: "i < length xs"
  have "set (window_at w xs i) = {window_at w xs i ! j | j. j < length (window_at w xs i)}"
    by (simp add: set_conv_nth)
  also have "\<dots> = {window_at w xs i ! j | j. j < min (i + 1) w}"
    using i by (simp add: length_window_at)
  also have "\<dots> = {xs ! (i + 1 - w + j) | j. j < min (i + 1) w}"
    using window_at_nth[OF i] by metis
  also have "\<dots> = {xs ! k | k. i + 1 - w \<le> k \<and> k \<le> i}"
  proof (intro set_eqI iffI)
    fix v assume "v \<in> {xs ! (i + 1 - w + j) | j. j < min (i + 1) w}"
    then obtain j where j: "v = xs ! (i + 1 - w + j)" "j < min (i + 1) w" by blast
    then have "i + 1 - w \<le> i + 1 - w + j \<and> i + 1 - w + j \<le> i" by arith
    with j show "v \<in> {xs ! k | k. i + 1 - w \<le> k \<and> k \<le> i}" by blast
  next
    fix v assume "v \<in> {xs ! k | k. i + 1 - w \<le> k \<and> k \<le> i}"
    then obtain k where k: "v = xs ! k" "i + 1 - w \<le> k" "k \<le> i" by blast
    then have e: "i + 1 - w + (k - (i + 1 - w)) = k" and b: "k - (i + 1 - w) < min (i + 1) w"
      by arith+
    have "v = xs ! (i + 1 - w + (k - (i + 1 - w)))" using k(1) e by simp
    with b show "v \<in> {xs ! (i + 1 - w + j) | j. j < min (i + 1) w}" by blast
  qed
  finally show ?thesis .
qed

lemma rolling_mean_short:
  assumes "i < length xs" "i + 1 < w"
  shows "rolling_mean w w xs ! i = None"
proof -
  have "length (observations (window_at w xs i)) \<le> length (window_at w xs i)"
    by (rule length_observations_le)
  also have "\<dots> < w" using assms by (simp add: length_window_at)
  finally show ?thesis using assms by (simp add: rolling_mean_nth mean_min_periods_def Let_def)
qed

lemma rolling_mean_has_nan:
  assumes "i < length xs" "i + 1 - w \<le> k" "k \<le> i" "xs ! k = None"
  shows "rolling_mean w w xs ! i = None"
proof -
  have "xs ! k \<in> {xs ! k | k. i + 1 - w \<le> k \<and> k \<le> i}"
    using assms by blast
  then have "None \<in> set (window_at w xs i)"
    using assms by (simp add: window_at_set)
  then have "length (observations (window_at w xs i)) < length (window_at w xs i)"
    by (rule length_observations_less)
  also have "\<dots> \<le> w" using assms by (simp add: length_window_at)
  finally show ?thesis using assms by (simp add: rolling_mean_nth mean_min_periods_def Let_def)
qed

lemma rolling_mean_full:
  assumes "i < length xs" "1 \<le> w" "w \<le> i + 1"
    and "\<forall>k. i + 1 - w \<le> k \<and> k \<le> i \<longrightarrow> xs ! k \<noteq> None"
  shows "rolling_mean w w xs ! i = Some ((\<Sum>k = i + 1 - w..i. the (xs ! k)) / of_nat w)"
proof -
  have nn: "None \<notin> set (window_at w xs i)"
    using assms by (auto simp: window_at_set)
  then have obs: "observations (window_at w xs i) = map the (window_at w xs i)"
    by (rule observations_all_Some)
  have len: "length (window_at w xs i) = w"
    using assms by (simp add: length_window_at min_def)
  have "map the (window_at w xs i) = drop (i + 1 - w) (take (i + 1) (map the xs))"
    by (simp add: window_at_def drop_map take_map)
  then have "sum_list (map the (window_at w xs i)) = (\<Sum>k = i + 1 - w..<i + 1. map the xs ! k)"
    using assms by (simp add: sum_list_drop_take)
  also have "\<dots> = (\<Sum>k = i + 1 - w..<i + 1. the (xs ! k))"
    using assms by (intro sum.cong) auto
  also have "{i + 1 - w..<i + 1} = {i + 1 - w..i}" by auto
  finally have s: "sum_list (map the (window_at w xs i)) = (\<Sum>k = i + 1 - w..i. the (xs ! k))" .
  have ne: "window_at w xs i \<noteq> []" using len assms by auto
  show ?thesis
    using assms obs len s ne by (simp add: rolling_mean_nth mean_min_periods_def Let_def)
qed

lemma mean_min_periods_nonneg:
  assumes "mean_min_periods m ys = Some v" "\<forall>u. Some u \<in> set ys \<longrightarrow> 0 \<le> u"
  shows "0 \<le> v"
proof -
  have "\<forall>u \<in> set (observations ys). 0 \<le> u"
    using assms(2) by (auto simp: observations_def)
  then have "0 \<le> sum_list (observations ys)"
    by (intro sum_list_nonneg) auto
  then have "0 \<le> sum_list (observations ys) / of_nat (length (observations ys))"
    by simp
  with assms(1) show ?thesis
    by (auto simp: mean_min_periods_def Let_def split: if_splits)
qed

lemma rolling_mean_nonneg:
  assumes "Some v \<in> set (rolling_mean w m xs)" "\<forall>u. Some u \<in> set xs \<longrightarrow> 0 \<le> u"
  shows "0 \<le> v"
proof -
  from assms(1) obtain i where i: "i < length xs" "mean_min_periods m (window_at w xs i) = Some v"
    by (auto simp: rolling_mean_def)
  have "set (window_at w xs i) \<subseteq> set xs"
    unfolding window_at_def by (meson set_drop_subset set_take_subset subset_trans)
  with assms(2) have "\<forall>u. Some u \<in> set (window_at w xs i) \<longrightarrow> 0 \<le> u" by blast
  with i(2) show ?thesis by (rule mean_min_periods_nonneg)
qed


subsection \<open>range of the oscillator\<close>

lemma Some_in_map_option:
  assumes "Some u \<in> set (map (map_option f) xs)"
  shows "\<exists>w. Some w \<in> set xs \<and> u = f w"
proof -
  from assms obtain x where x: "x \<in> set xs" "Some u = map_option f x" by auto
  from x(2) obtain w where "x = Some w" "u = f w" by (cases x) auto
  with x(1) show ?thesis by blast
qed

lemma gains_nonneg: "Some u \<in> set (gains close) \<Longrightarrow> 0 \<le> u"
  unfolding gains_def clip_lower_def by (drule Some_in_map_option) auto

lemma losses_nonneg: "Some u \<in> set (losses close) \<Longrightarrow> 0 \<le> u"
  unfolding losses_def neg_def clip_upper_def
  by (drule Some_in_map_option, erule exE, erule conjE, drule Some_in_map_option) auto

lemma avg_gain_nonneg:
  assumes "Some a \<in> set (avg_gain close period)"
  shows "0 \<le> a"
proof -
  have "\<forall>u. Some u \<in> set (gains close) \<longrightarrow> 0 \<le> u"
    by (intro allI impI) (rule gains_nonneg)
  with assms show ?thesis unfolding avg_gain_def by (rule rolling_mean_nonneg)
qed

lemma avg_loss_nonneg:
  assumes "Some b \<in> set (avg_loss close period)"
  shows "0 \<le> b"
proof -
  have "\<forall>u. Some u \<in> set (losses close) \<longrightarrow> 0 \<le> u"
    by (intro allI impI) (rule losses_nonneg)
  with assms show ?thesis unfolding avg_loss_def by (rule rolling_mean_nonneg)
qed

lemma replace_zero_nan_nonzero: "Some 0 \<notin> set (replace_zero_nan xs)"
  by (auto simp: replace_zero_nan_def)

lemma replace_zero_nan_Some:
  "Some b \<in> set (replace_zero_nan xs) \<Longrightarrow> Some b \<in> set xs \<and> b \<noteq> 0"
  by (auto simp: replace_zero_nan_def split: if_splits)

lemma series_div_Some:
  assumes "Some r \<in> set (series_div xs ys)"
  shows "\<exists>a b. Some a \<in> set xs \<and> Some b \<in> set ys \<and> b \<noteq> 0 \<and> r = a / b"
proof -
  from assms obtain x y where xy: "(x, y) \<in> set (zip xs ys)"
    and r: "(case (x, y) of (Some a, Some b) \<Rightarrow> (if b = 0 then None else Some (a / b)) | _ \<Rightarrow> None) = Some r"
    by (auto simp: series_div_def)
  from r obtain a b where "x = Some a" "y = Some b" "b \<noteq> 0" "r = a / b"
    by (auto split: option.splits if_splits)
  moreover have "x \<in> set xs" "y \<in> set ys"
    using xy by (auto dest: set_zip_leftD set_zip_rightD)
  ultimately show ?thesis by blast
qed

lemma rs_nonneg:
  assumes "Some r \<in> set (rs close period)"
  shows "0 \<le> r"
proof -
  from assms obtain a b where ab: "Some a \<in> set (avg_gain close period)"
    "Some b \<in> set (replace_zero_nan (avg_loss close period))" "r = a / b"
    unfolding rs_def by (blast dest: series_div_Some)
  have "0 \<le> a" using ab(1) by (rule avg_gain_nonneg)
  moreover have "0 \<le> b" using ab(2) by (blast dest: replace_zero_nan_Some avg_loss_nonneg)
  ultimately show ?thesis using ab(3) by simp
qed

lemma rsi_formula_range:
  fixes r :: rat
  assumes "0 \<le> r"
  shows "0 \<le> 100 - 100 / (1 + r) \<and> 100 - 100 / (1 + r) < 100"
proof -
  have p: "0 < 1 + r" using assms by simp
  then have "100 / (1 + r) \<le> 100" by (simp add: divide_le_eq assms)
  moreover have "0 < 100 / (1 + r)" using p by simp
  ultimately show ?thesis by simp
qed

lemma rsi_vals_range:
  assumes "Some v \<in> set (rsi_vals close period)"
  shows "0 \<le> v \<and> v < 100"
proof -
  from assms obtain r where r: "Some r \<in> set (rs close period)" "v = 100 - 100 / (1 + r)"
    unfolding rsi_vals_def by (blast dest: Some_in_map_option)
  have "0 \<le> r" using r(1) by (rule rs_nonneg)
  then show ?thesis unfolding r(2) by (rule rsi_formula_range)
qed

lemma length_replace_zero_nan [simp]: "length (replace_zero_nan xs) = length xs"
  by (simp add: replace_zero_nan_def)

lemma length_series_div [simp]: "length (series_div xs ys) = min (length xs) (length ys)"
  by (simp add: series_div_def)

lemma series_div_nth_None:
  "i < length xs \<Longrightarrow> i < length ys \<Longrightarrow> ys ! i = None \<Longrightarrow> series_div xs ys ! i = None"
  by (simp add: series_div_def split: option.splits)

lemma length_diff [simp]: "length (diff xs) = length xs"
  by (simp add: diff_def)

lemma length_gains [simp]: "length (gains xs) = length xs"
  by (simp add: gains_def clip_lower_def)

lemma length_losses [simp]: "length (losses xs) = length xs"
  by (simp add: losses_def clip_upper_def neg_def)

lemma length_avg_gain [simp]: "length (avg_gain xs p) = length xs"
  by (simp add: avg_gain_def)

lemma length_avg_loss [simp]: "length (avg_loss xs p) = length xs"
  by (simp add: avg_loss_def)

lemma length_rs [simp]: "length (rs xs p) = length xs"
  by (simp add: rs_def)

lemma length_rsi_vals [simp]: "length (rsi_vals xs p) = length xs"
  by (simp add: rsi_vals_def)

lemma length_rsi [simp]: "length (rsi xs p) = length xs"
  by (simp add: rsi_def)

lemma rsi_vals_zero_loss:
  assumes "i < length close" "avg_loss close period ! i = Some 0"
  shows "rsi_vals close period ! i = None"
proof -
  have "replace_zero_nan (avg_loss close period) ! i = None"
    using assms by (simp add: replace_zero_nan_def)
  then have "rs close period ! i = None"
    unfolding rs_def using assms(1) by (intro series_div_nth_None) simp_all
  then show ?thesis using assms(1) by (simp add: rsi_vals_def)
qed

lemma rsi_vals_zero_gain:
  assumes "i < length close" "avg_gain close period ! i = Some 0"
    "avg_loss close period ! i = Some l" "l \<noteq> 0"
  shows "rsi_vals close period ! i = Some 0"
proof -
  have "replace_zero_nan (avg_loss close period) ! i = Some l"
    using assms by (simp add: replace_zero_nan_def)
  then have "rs close period ! i = Some 0"
    using assms by (simp add: rs_def series_div_def)
  then show ?thesis using assms(1) by (simp add: rsi_vals_def)
qed

lemma rsi_keeps_defined:
  assumes "i < length close" "rsi_vals close period ! i = Some v"
  shows "rsi close period ! i = Some v"
proof -
  have "\<forall>k. i \<le> k \<and> k < i \<longrightarrow> rsi_vals close period ! k = None" by auto
  with assms show ?thesis
    unfolding rsi_def by (intro bfill_first_value[where j = i]) simp_all
qed

text \<open>
  Claim C4, as amended. Every defined value of the oscillator lies in the closed interval
  \<open>[0, 100]\<close>. The value 0 is taken: where the average gain of a window is 0 and its
  average loss is not, the value computed there is 0, and the back-fill keeps it. Where the
  average loss of a window is exactly 0 the value computed there (\<open>rsi_vals\<close>, before the
  back-fill) is undefined, not infinite.
\<close>

theorem rsi_range:
  "(\<forall>v. Some v \<in> set (rsi close period) \<longrightarrow> 0 \<le> v \<and> v \<le> 100) \<and>
   (\<forall>i<length close. \<forall>l.
      avg_gain close period ! i = Some 0 \<and> avg_loss close period ! i = Some l \<and> l \<noteq> 0 \<longrightarrow>
      rsi_vals close period ! i = Some 0 \<and> rsi close period ! i = Some 0) \<and>
   (\<forall>i<length close. avg_loss close period ! i = Some 0 \<longrightarrow> rsi_vals close period ! i = None)"
proof (intro conjI allI impI)
  fix v assume "Some v \<in> set (rsi close period)"
  then have "Some v \<in> set (rsi_vals close period)"
    unfolding rsi_def by (rule bfill_Some_in_set)
  then have r: "0 \<le> v \<and> v < 100" by (rule rsi_vals_range)
  from r show "0 \<le> v" ..
  from r show "v \<le> 100" by simp
next
  fix i l
  assume i: "i < length close"
    and a: "avg_gain close period ! i = Some 0 \<and> avg_loss close period ! i = Some l \<and> l \<noteq> 0"
  from i a show z: "rsi_vals close period ! i = Some 0" by (blast intro: rsi_vals_zero_gain)
  from i z show "rsi close period ! i = Some 0" by (rule rsi_keeps_defined)
next
  fix i assume "i < length close" "avg_loss close period ! i = Some 0"
  then show "rsi_vals close period ! i = None" by (rule rsi_vals_zero_loss)
qed

text \<open>
  Witness for C4 as amended: period 2 over \<open>[5, 4, 3, 4, 5]\<close>. The window at position 2 has
  no gain and the value 0, the one at position 3 the value 50, the one at position 4 no loss
  and no value.
\<close>

theorem rsi_range_witness:
  "rsi (map Some [5, 4, 3, 4, 5]) 2 = [Some 0, Some 0, Some 0, Some 50, None] \<and>
   (0::rat) \<le> 50 \<and> (50::rat) \<le> 100 \<and>
   2 < length (map Some [5, 4, 3, 4, 5 :: rat]) \<and>
   avg_gain (map Some [5, 4, 3, 4, 5]) 2 ! 2 = Some 0 \<and>
   avg_loss (map Some [5, 4, 3, 4, 5]) 2 ! 2 = Some 1 \<and> (1::rat) \<noteq> 0 \<and>
   rsi_vals (map Some [5, 4, 3, 4, 5]) 2 ! 2 = Some 0 \<and>
   rsi (map Some [5, 4, 3, 4, 5]) 2 ! 2 = Some 0 \<and>
   avg_loss (map Some [5, 4, 3, 4, 5]) 2 ! 4 = Some 0 \<and>
   rsi_vals (map Some [5, 4, 3, 4, 5]) 2 ! 4 = None"
proof -
  let ?c = "map Some [5, 4, 3, 4, 5 :: rat]"
  have e: "rsi ?c 2 = [Some 0, Some 0, Some 0, Some 50, None]"
    by code_simp
  then have m: "Some 50 \<in> set (rsi ?c 2)" by simp
  have g: "avg_gain ?c 2 = [None, None, Some 0, Some (1 / 2), Some 1]"
    by code_simp
  have l: "avg_loss ?c 2 = [None, None, Some 1, Some (1 / 2), Some 0]"
    by code_simp
  have g2: "avg_gain ?c 2 ! 2 = Some 0" using g by simp
  have l2: "avg_loss ?c 2 ! 2 = Some 1" using l by simp
  have l4: "avg_loss ?c 2 ! 4 = Some 0" using l by simp
  have i2: "2 < length ?c" and i4: "4 < length ?c" by simp_all
  note r = rsi_range[of ?c 2]
  have b: "(0::rat) \<le> 50 \<and> (50::rat) \<le> 100"
    using r[THEN conjunct1, THEN spec, THEN mp, OF m] .
  have "avg_gain ?c 2 ! 2 = Some 0 \<and> avg_loss ?c 2 ! 2 = Some 1 \<and> (1::rat) \<noteq> 0"
    using g2 l2 by simp
  then have z: "rsi_vals ?c 2 ! 2 = Some 0 \<and> rsi ?c 2 ! 2 = Some 0"
    using r[THEN conjunct2, THEN conjunct1, THEN spec, THEN mp, OF i2, THEN spec, THEN mp] by blast
  have n: "rsi_vals ?c 2 ! 4 = None"
    using r[THEN conjunct2, THEN conjunct2, THEN spec, THEN mp, THEN mp, OF i4 l4] .
  show ?thesis using e b g2 l2 l4 z n by simp
qed

text \<open>
  Counterexample to C4 as stated: over the falling series \<open>[2, 1]\<close> with period 1 the average
  gain is 0 and the average loss 1, and the oscillator is defined and equal to 0, outside
  the open interval \<open>(0, 100)\<close>.
\<close>

theorem rsi_open_interval_counterexample:
  "rsi (map Some [2, 1]) 1 = [Some 0, Some 0]"
  by code_simp


subsection \<open>definedness of the oscillator on a numeric series\<close>

lemma diff_nth:
  "i < length xs \<Longrightarrow>
     diff (map Some xs) ! i = (if i = 0 then None else Some (xs ! i - xs ! (i - 1)))"
  by (simp add: diff_def)

lemma gains_nth:
  "i < length xs \<Longrightarrow>
     gains (map Some xs) ! i = (if i = 0 then None else Some (max 0 (xs ! i - xs ! (i - 1))))"
  by (simp add: gains_def clip_lower_def diff_nth)

lemma losses_nth:
  "i < length xs \<Longrightarrow>
     losses (map Some xs) ! i = (if i = 0 then None else Some (- min 0 (xs ! i - xs ! (i - 1))))"
  by (simp add: losses_def clip_upper_def neg_def diff_nth)

lemma avg_gain_defined:
  assumes "1 \<le> p" "i < length xs"
  shows "(avg_gain (map Some xs) p ! i \<noteq> None) = (p \<le> i)"
proof (cases "p \<le> i")
  case True
  have "\<forall>k. i + 1 - p \<le> k \<and> k \<le> i \<longrightarrow> gains (map Some xs) ! k \<noteq> None"
  proof (intro allI impI)
    fix k assume k: "i + 1 - p \<le> k \<and> k \<le> i"
    then have "k \<noteq> 0" "k < length xs" using True assms by auto
    then show "gains (map Some xs) ! k \<noteq> None" by (simp add: gains_nth)
  qed
  then have "avg_gain (map Some xs) p ! i =
      Some ((\<Sum>k = i + 1 - p..i. the (gains (map Some xs) ! k)) / of_nat p)"
    unfolding avg_gain_def using assms True by (intro rolling_mean_full) simp_all
  with True show ?thesis by simp
next
  case False
  have "avg_gain (map Some xs) p ! i = None"
    unfolding avg_gain_def
  proof (rule rolling_mean_has_nan[where k = 0])
    show "i < length (gains (map Some xs))" using assms by simp
    show "i + 1 - p \<le> 0" using False by simp
    show "0 \<le> i" by simp
    show "gains (map Some xs) ! 0 = None" using assms gains_nth[of 0 xs] by (cases xs) auto
  qed
  with False show ?thesis by simp
qed

lemma avg_loss_nth:
  assumes "1 \<le> p" "i < length xs"
  shows "avg_loss (map Some xs) p ! i =
     (if i < p then None
      else Some ((\<Sum>k = i + 1 - p..i. - min 0 (xs ! k - xs ! (k - 1))) / of_nat p))"
proof (cases "p \<le> i")
  case True
  have d: "\<forall>k. i + 1 - p \<le> k \<and> k \<le> i \<longrightarrow> losses (map Some xs) ! k \<noteq> None"
  proof (intro allI impI)
    fix k assume k: "i + 1 - p \<le> k \<and> k \<le> i"
    then have "k \<noteq> 0" "k < length xs" using True assms by auto
    then show "losses (map Some xs) ! k \<noteq> None" by (simp add: losses_nth)
  qed
  have "avg_loss (map Some xs) p ! i =
      Some ((\<Sum>k = i + 1 - p..i. the (losses (map Some xs) ! k)) / of_nat p)"
    unfolding avg_loss_def using assms True d by (intro rolling_mean_full) simp_all
  also have "(\<Sum>k = i + 1 - p..i. the (losses (map Some xs) ! k)) =
             (\<Sum>k = i + 1 - p..i. - min 0 (xs ! k - xs ! (k - 1)))"
  proof (rule sum.cong)
    fix k assume "k \<in> {i + 1 - p..i}"
    then have "k \<noteq> 0" "k < length xs" using True assms by auto
    then show "the (losses (map Some xs) ! k) = - min 0 (xs ! k - xs ! (k - 1))"
      by (simp add: losses_nth)
  qed simp
  finally show ?thesis using True by simp
next
  case False
  have "avg_loss (map Some xs) p ! i = None"
    unfolding avg_loss_def
  proof (rule rolling_mean_has_nan[where k = 0])
    show "i < length (losses (map Some xs))" using assms by simp
    show "i + 1 - p \<le> 0" using False by simp
    show "0 \<le> i" by simp
    show "losses (map Some xs) ! 0 = None" using assms losses_nth[of 0 xs] by (cases xs) auto
  qed
  with False show ?thesis by simp
qed

lemma loss_sum_zero_iff:
  fixes xs :: "rat list"
  shows "((\<Sum>k = a..b. - min 0 (xs ! k - xs ! (k - 1))) = 0) =
         (\<forall>k. a \<le> k \<and> k \<le> b \<longrightarrow> xs ! (k - 1) \<le> xs ! k)"
proof -
  have "((\<Sum>k \<in> {a..b}. - min 0 (xs ! k - xs ! (k - 1))) = 0) =
        (\<forall>k \<in> {a..b}. - min 0 (xs ! k - xs ! (k - 1)) = 0)"
    by (rule sum_nonneg_eq_0_iff) (auto simp: min_def)
  also have "\<dots> = (\<forall>k. a \<le> k \<and> k \<le> b \<longrightarrow> xs ! (k - 1) \<le> xs ! k)"
    by (auto simp: min_def split: if_splits)
  finally show ?thesis .
qed

lemma series_div_nth_defined:
  assumes "i < length xs" "i < length ys"
  shows "(series_div xs ys ! i \<noteq> None) = (xs ! i \<noteq> None \<and> ys ! i \<noteq> None \<and> ys ! i \<noteq> Some 0)"
  using assms by (auto simp: series_div_def split: option.splits)

lemma replace_zero_nan_nth_defined:
  assumes "i < length xs"
  shows "(replace_zero_nan xs ! i \<noteq> None \<and> replace_zero_nan xs ! i \<noteq> Some 0) =
         (xs ! i \<noteq> None \<and> xs ! i \<noteq> Some 0)"
  using assms by (simp add: replace_zero_nan_def)

lemma rsi_vals_defined_iff:
  assumes "1 \<le> p" "i < length xs"
  shows "(rsi_vals (map Some xs) p ! i \<noteq> None) =
         (p \<le> i \<and> (\<exists>k. i + 1 - p \<le> k \<and> k \<le> i \<and> xs ! k < xs ! (k - 1)))"
proof -
  let ?cl = "map Some xs"
  have "(rsi_vals ?cl p ! i \<noteq> None) = (rs ?cl p ! i \<noteq> None)"
    using assms by (simp add: rsi_vals_def)
  also have "\<dots> = (avg_gain ?cl p ! i \<noteq> None \<and>
        replace_zero_nan (avg_loss ?cl p) ! i \<noteq> None \<and>
        replace_zero_nan (avg_loss ?cl p) ! i \<noteq> Some 0)"
    unfolding rs_def using assms by (intro series_div_nth_defined) simp_all
  also have "\<dots> = (avg_gain ?cl p ! i \<noteq> None \<and>
        avg_loss ?cl p ! i \<noteq> None \<and> avg_loss ?cl p ! i \<noteq> Some 0)"
    using replace_zero_nan_nth_defined[of i "avg_loss ?cl p"] assms by simp
  also have "\<dots> = (p \<le> i \<and> (\<Sum>k = i + 1 - p..i. - min 0 (xs ! k - xs ! (k - 1))) \<noteq> 0)"
  proof (cases "p \<le> i")
    case True
    then show ?thesis
      using avg_gain_defined[OF assms] avg_loss_nth[OF assms] assms(1) by simp
  next
    case False
    then show ?thesis using avg_gain_defined[OF assms] by simp
  qed
  also have "\<dots> = (p \<le> i \<and> (\<exists>k. i + 1 - p \<le> k \<and> k \<le> i \<and> xs ! k < xs ! (k - 1)))"
    unfolding loss_sum_zero_iff by (auto simp: not_le)
  finally show ?thesis .
qed


lemma rsi_defined_iff:
  assumes "1 \<le> p" "i < length xs"
  shows "(rsi (map Some xs) p ! i \<noteq> None) =
         (p < length xs \<and>
          (\<exists>k. 1 \<le> k \<and> k < length xs \<and> i < k + p \<and> xs ! k < xs ! (k - 1)))"
proof -
  let ?raw = "rsi_vals (map Some xs) p"
  have "(rsi (map Some xs) p ! i \<noteq> None) =
        (\<exists>j. i \<le> j \<and> j < length ?raw \<and> ?raw ! j \<noteq> None)"
    unfolding rsi_def using assms by (intro bfill_defined_iff) simp
  also have "\<dots> = (\<exists>j. i \<le> j \<and> j < length xs \<and> p \<le> j \<and>
                       (\<exists>k. j + 1 - p \<le> k \<and> k \<le> j \<and> xs ! k < xs ! (k - 1)))"
  proof (rule arg_cong[where f = Ex], rule ext)
    fix j
    show "(i \<le> j \<and> j < length ?raw \<and> ?raw ! j \<noteq> None) =
          (i \<le> j \<and> j < length xs \<and> p \<le> j \<and>
             (\<exists>k. j + 1 - p \<le> k \<and> k \<le> j \<and> xs ! k < xs ! (k - 1)))"
    proof (cases "j < length xs")
      case True
      show ?thesis
        unfolding rsi_vals_defined_iff[OF assms(1) True] using True by simp
    next
      case False
      then show ?thesis by simp
    qed
  qed
  also have "\<dots> = (p < length xs \<and>
          (\<exists>k. 1 \<le> k \<and> k < length xs \<and> i < k + p \<and> xs ! k < xs ! (k - 1)))"
  proof
    assume "\<exists>j. i \<le> j \<and> j < length xs \<and> p \<le> j \<and>
                (\<exists>k. j + 1 - p \<le> k \<and> k \<le> j \<and> xs ! k < xs ! (k - 1))"
    then obtain j k where jk: "i \<le> j" "j < length xs" "p \<le> j" "j + 1 - p \<le> k" "k \<le> j"
      "xs ! k < xs ! (k - 1)" by blast
    then have "p < length xs" "1 \<le> k" "k < length xs" "i < k + p" by arith+
    with jk(6) show "p < length xs \<and>
          (\<exists>k. 1 \<le> k \<and> k < length xs \<and> i < k + p \<and> xs ! k < xs ! (k - 1))" by blast
  next
    assume "p < length xs \<and>
          (\<exists>k. 1 \<le> k \<and> k < length xs \<and> i < k + p \<and> xs ! k < xs ! (k - 1))"
    then obtain k where k: "p < length xs" "1 \<le> k" "k < length xs" "i < k + p"
      "xs ! k < xs ! (k - 1)" by blast
    define j where "j = max (max i p) k"
    have "i \<le> j" "j < length xs" "p \<le> j" "j + 1 - p \<le> k" "k \<le> j"
      using k assms unfolding j_def by arith+
    with k(5) show "\<exists>j. i \<le> j \<and> j < length xs \<and> p \<le> j \<and>
                (\<exists>k. j + 1 - p \<le> k \<and> k \<le> j \<and> xs ! k < xs ! (k - 1))" by blast
  qed
  finally show ?thesis .
qed

lemma rsi_all_defined_iff:
  assumes "1 \<le> p" "p + 1 \<le> length xs"
  shows "(\<forall>i<length xs. rsi (map Some xs) p ! i \<noteq> None) =
         (\<exists>k. length xs - p \<le> k \<and> k < length xs \<and> xs ! k < xs ! (k - 1))"
proof
  assume a: "\<forall>i<length xs. rsi (map Some xs) p ! i \<noteq> None"
  have l: "length xs - 1 < length xs" using assms by arith
  from a l have "rsi (map Some xs) p ! (length xs - 1) \<noteq> None" by blast
  then obtain k where k: "1 \<le> k" "k < length xs" "length xs - 1 < k + p" "xs ! k < xs ! (k - 1)"
    using rsi_defined_iff[OF assms(1) l] by blast
  then have "length xs - p \<le> k" by arith
  with k show "\<exists>k. length xs - p \<le> k \<and> k < length xs \<and> xs ! k < xs ! (k - 1)" by blast
next
  assume "\<exists>k. length xs - p \<le> k \<and> k < length xs \<and> xs ! k < xs ! (k - 1)"
  then obtain k where k: "length xs - p \<le> k" "k < length xs" "xs ! k < xs ! (k - 1)" by blast
  show "\<forall>i<length xs. rsi (map Some xs) p ! i \<noteq> None"
  proof (intro allI impI)
    fix i assume i: "i < length xs"
    have "p < length xs" "1 \<le> k" "i < k + p" using k assms i by arith+
    with k show "rsi (map Some xs) p ! i \<noteq> None"
      using rsi_defined_iff[OF assms(1) i] by blast
  qed
qed

lemma rsi_backfill_value:
  assumes "i \<le> j" "j < length close" "rsi_vals close p ! j = Some v"
    "\<forall>k. i \<le> k \<and> k < j \<longrightarrow> rsi_vals close p ! k = None"
  shows "rsi close p ! i = Some v"
  unfolding rsi_def using assms by (intro bfill_first_value[where j = j]) simp_all

text \<open>
  Claim C3, as amended. For a numeric close-price series \<open>xs\<close> and a period \<open>\<ge> 1\<close>, the
  oscillator output has the length of the input, and its position \<open>i\<close> is defined exactly
  when the series has at least \<open>period + 1\<close> observations and some price decline
  \<open>xs ! k < xs ! (k - 1)\<close> occurs at a position \<open>k\<close> with \<open>i < k + period\<close>, that is, inside
  the window of \<open>i\<close> or of a later position. So a series with at least \<open>period + 1\<close>
  observations is defined everywhere exactly when one of its last \<open>period\<close> differences is a
  decline: the average loss of a window without a decline is 0, the source replaces it by
  \<open>NaN\<close>, and \<open>bfill\<close> has nothing to fill a trailing \<open>NaN\<close> from. A leading undefined
  value is filled with the first computed value after it.
\<close>

theorem rsi_defined_positions:
  assumes "1 \<le> period"
  shows "length (rsi (map Some xs) period) = length xs \<and>
    (\<forall>i<length xs. (rsi (map Some xs) period ! i \<noteq> None) =
       (period < length xs \<and>
        (\<exists>k. 1 \<le> k \<and> k < length xs \<and> i < k + period \<and> xs ! k < xs ! (k - 1)))) \<and>
    (period + 1 \<le> length xs \<longrightarrow>
       (\<forall>i<length xs. rsi (map Some xs) period ! i \<noteq> None) =
       (\<exists>k. length xs - period \<le> k \<and> k < length xs \<and> xs ! k < xs ! (k - 1))) \<and>
    (\<forall>i j v. i \<le> j \<and> j < length xs \<and> rsi_vals (map Some xs) period ! j = Some v \<and>
        (\<forall>k. i \<le> k \<and> k < j \<longrightarrow> rsi_vals (map Some xs) period ! k = None) \<longrightarrow>
        rsi (map Some xs) period ! i = Some v)"
proof (intro conjI allI impI)
  show "length (rsi (map Some xs) period) = length xs" by simp
next
  fix i assume "i < length xs"
  with assms show "(rsi (map Some xs) period ! i \<noteq> None) =
       (period < length xs \<and>
        (\<exists>k. 1 \<le> k \<and> k < length xs \<and> i < k + period \<and> xs ! k < xs ! (k - 1)))"
    by (rule rsi_defined_iff)
next
  assume "period + 1 \<le> length xs"
  with assms show "(\<forall>i<length xs. rsi (map Some xs) period ! i \<noteq> None) =
       (\<exists>k. length xs - period \<le> k \<and> k < length xs \<and> xs ! k < xs ! (k - 1))"
    by (rule rsi_all_defined_iff)
next
  fix i j v
  assume a: "i \<le> j \<and> j < length xs \<and> rsi_vals (map Some xs) period ! j = Some v \<and>
        (\<forall>k. i \<le> k \<and> k < j \<longrightarrow> rsi_vals (map Some xs) period ! k = None)"
  show "rsi (map Some xs) period ! i = Some v"
  proof (rule rsi_backfill_value[where j = j])
    show "i \<le> j" using a by blast
    show "j < length (map Some xs)" using a by simp
    show "rsi_vals (map Some xs) period ! j = Some v" using a by blast
    show "\<forall>k. i \<le> k \<and> k < j \<longrightarrow> rsi_vals (map Some xs) period ! k = None" using a by blast
  qed
qed

text \<open>
  Witness for C3 as amended: period 2 over \<open>[1, 3, 2, 5, 4]\<close>, whose last difference is a
  decline; every position is defined.
\<close>

theorem rsi_defined_positions_witness:
  "(1::nat) \<le> 2 \<and> 2 + 1 \<le> length [1, 3, 2, 5, 4 :: rat] \<and>
   [1, 3, 2, 5, 4 :: rat] ! 4 < [1, 3, 2, 5, 4] ! (4 - 1) \<and>
   rsi (map Some [1, 3, 2, 5, 4]) 2 ! 0 \<noteq> None \<and>
   rsi (map Some [1, 3, 2, 5, 4]) 2 ! 4 \<noteq> None \<and>
   rsi (map Some [1, 3, 2, 5, 4]) 2 = [Some (200 / 3), Some (200 / 3), Some (200 / 3), Some 75, Some 75]"
proof -
  have h: "(1::nat) \<le> 2" by simp
  have l: "2 + 1 \<le> length [1, 3, 2, 5, 4 :: rat]" by simp
  have d: "[1, 3, 2, 5, 4 :: rat] ! 4 < [1, 3, 2, 5, 4] ! (4 - 1)" by simp
  have k: "\<exists>k. length [1, 3, 2, 5, 4 :: rat] - 2 \<le> k \<and> k < length [1, 3, 2, 5, 4 :: rat] \<and>
      [1, 3, 2, 5, 4 :: rat] ! k < [1, 3, 2, 5, 4] ! (k - 1)"
    using d by (intro exI[of _ 4]) simp
  note t = rsi_defined_positions[OF h, of "[1, 3, 2, 5, 4]"]
  from t l k have a: "\<forall>i<length [1, 3, 2, 5, 4 :: rat]. rsi (map Some [1, 3, 2, 5, 4]) 2 ! i \<noteq> None"
    by blast
  have a0: "rsi (map Some [1, 3, 2, 5, 4]) 2 ! 0 \<noteq> None" using a by simp
  have a4: "rsi (map Some [1, 3, 2, 5, 4]) 2 ! 4 \<noteq> None" using a by simp
  have e: "rsi (map Some [1, 3, 2, 5, 4]) 2 = [Some (200 / 3), Some (200 / 3), Some (200 / 3), Some 75, Some 75]"
    by code_simp
  show ?thesis using h l d a0 a4 e by blast
qed

text \<open>
  Counterexample to C3 as stated: \<open>[3, 1, 2, 3, 4]\<close> has \<open>period + 1 = 3\<close> observations and
  more, yet with period 2 the last two positions of the oscillator stay null, because the
  last two windows hold no decline.
\<close>

theorem rsi_trailing_nulls_counterexample:
  "2 + 1 \<le> length [3, 1, 2, 3, 4 :: rat] \<and>
   rsi (map Some [3, 1, 2, 3, 4]) 2 = [Some (100 / 3), Some (100 / 3), Some (100 / 3), None, None]"
proof -
  have "rsi (map Some [3, 1, 2, 3, 4]) 2 = [Some (100 / 3), Some (100 / 3), Some (100 / 3), None, None]"
    by code_simp
  then show ?thesis by simp
qed

lemma tech_get_ensure_errors [simp]: "tech_get f (ensure_errors s) = tech_get f s"
  by (simp add: tech_get_def ensure_errors_def split: option.splits)

lemma info_get_ensure_errors [simp]: "info_get f (ensure_errors s) = info_get f s"
  by (simp add: info_get_def ensure_errors_def split: option.splits)

lemma current_price_of_ensure_errors [simp]:
  "current_price_of (ensure_errors s) = current_price_of s"
  by (simp add: current_price_of_def split: option.splits)

lemma recommendation_ensure_errors [simp]: "recommendation (ensure_errors s) = recommendation s"
  by (simp add: recommendation_def)

lemma buy_sell_exclusive: "\<not> (buy_condition cp s10 s20 r \<and> sell_condition cp s10 s20 r)"
  by (auto simp: buy_condition_def sell_condition_def)

text \<open>
  Claim C6. For all prices, averages and oscillator values the BUY test and the SELL test of
  the decision rule are never both true, and the rule gives the same decision and reason
  when the SELL test is tried first.
\<close>

theorem decision_order_irrelevant:
  "\<not> (buy_condition cp s10 s20 r \<and> sell_condition cp s10 s20 r) \<and>
   decide_sell_first current_price sma10 sma20 rsi_v = decide current_price sma10 sma20 rsi_v"
proof
  show "\<not> (buy_condition cp s10 s20 r \<and> sell_condition cp s10 s20 r)"
    by (rule buy_sell_exclusive)
  show "decide_sell_first current_price sma10 sma20 rsi_v = decide current_price sma10 sma20 rsi_v"
    using buy_sell_exclusive
    by (auto simp: decide_def decide_sell_first_def split: option.splits)
qed





subsection \<open>Market capitalisation\<close>

lemma format_market_cap_loop_caps:
  "format_market_cap_loop caps m c =
     (if m \<ge> 1000000000000
      then (case int_truediv m 1000000000000 of
              Inl e \<Rightarrow> Inl e | Inr q \<Rightarrow> Inr (c @ '' '' @ format_float False q @ ''T''))
      else if m \<ge> 1000000000
      then (case int_truediv m 1000000000 of
              Inl e \<Rightarrow> Inl e | Inr q \<Rightarrow> Inr (c @ '' '' @ format_float False q @ ''B''))
      else if m \<ge> 1000000
      then (case int_truediv m 1000000 of
              Inl e \<Rightarrow> Inl e | Inr q \<Rightarrow> Inr (c @ '' '' @ format_float False q @ ''M''))
      else Inr (c @ '' '' @ format_int m))"
  by (simp add: caps_def)

lemma to_double_5_2: "to_double (5 / 2) = Some (5 / 2)"
  by code_simp

lemma format_float_5_2: "format_float False (5 / 2) = ''2.50''"
  by code_simp

lemma format_market_cap_example:
  "format_market_cap (Some 2500000000) ''USD'' = Inr ''USD 2.50B''"
proof -
  have "(2500000000::rat) / 1000000000 = 5 / 2" by simp
  then have "int_truediv 2500000000 1000000000 = Inr (5 / 2)"
    by (simp add: int_truediv_def to_double_5_2)
  then show ?thesis
    by (simp add: format_market_cap_def format_market_cap_loop_caps format_float_5_2)
qed

text \<open>
  Claim C8, as amended. A null market capitalisation formats as \<open>N/A\<close>. A value of at least
  \<open>10^12\<close> is divided by \<open>10^12\<close> and printed with two decimals and the suffix \<open>T\<close>; a
  value in \<open>[10^9, 10^12)\<close> likewise with \<open>10^9\<close> and \<open>B\<close>; a value in \<open>[10^6, 10^9)\<close>
  with \<open>10^6\<close> and \<open>M\<close>; each after the currency code and a space. Every value below
  \<open>10^6\<close>, those in \<open>[1000, 10^6)\<close> among them, is printed in full after the currency code,
  with a comma between groups of three digits and no suffix: the source has no thousand
  tier. 2,500,000,000 in USD formats as \<open>USD 2.50B\<close>.
\<close>

theorem format_market_cap_tiers:
  "format_market_cap None c = Inr ''N/A'' \<and>
   (1000000000000 \<le> m \<longrightarrow>
      format_market_cap (Some m) c =
        (case int_truediv m 1000000000000 of
           Inl e \<Rightarrow> Inl e | Inr q \<Rightarrow> Inr (c @ '' '' @ format_float False q @ ''T''))) \<and>
   (1000000000 \<le> m \<and> m < 1000000000000 \<longrightarrow>
      format_market_cap (Some m) c =
        (case int_truediv m 1000000000 of
           Inl e \<Rightarrow> Inl e | Inr q \<Rightarrow> Inr (c @ '' '' @ format_float False q @ ''B''))) \<and>
   (1000000 \<le> m \<and> m < 1000000000 \<longrightarrow>
      format_market_cap (Some m) c =
        (case int_truediv m 1000000 of
           Inl e \<Rightarrow> Inl e | Inr q \<Rightarrow> Inr (c @ '' '' @ format_float False q @ ''M''))) \<and>
   (m < 1000000 \<longrightarrow> format_market_cap (Some m) c = Inr (c @ '' '' @ format_int m)) \<and>
   format_market_cap (Some 2500000000) ''USD'' = Inr ''USD 2.50B''"
proof (intro conjI impI)
  show "format_market_cap None c = Inr ''N/A''" by (simp add: format_market_cap_def)
  show "format_market_cap (Some 2500000000) ''USD'' = Inr ''USD 2.50B''"
    by (rule format_market_cap_example)
qed (simp_all add: format_market_cap_def format_market_cap_loop_caps)

text \<open>
  Witness for C8 as amended: 1,500,000 is in the million tier, 999,999 below every tier.
\<close>

theorem format_market_cap_tiers_witness:
  "(1000000 :: int) \<le> 1500000 \<and> (1500000 :: int) < 1000000000 \<and>
   format_market_cap (Some 1500000) ''USD'' = Inr ''USD 1.50M'' \<and>
   (999999 :: int) < 1000000 \<and>
   format_market_cap (Some 999999) ''USD'' = Inr ''USD 999,999''"
proof -
  note t = format_market_cap_tiers[of "''USD''" 1500000]
  have m: "format_market_cap (Some 1500000) ''USD'' =
        (case int_truediv 1500000 1000000 of
           Inl e \<Rightarrow> Inl e | Inr q \<Rightarrow> Inr (''USD'' @ '' '' @ format_float False q @ ''M''))"
    using t by simp
  have "int_truediv 1500000 1000000 = Inr (3 / 2)" by code_simp
  moreover have "format_float False (3 / 2) = ''1.50''" by code_simp
  ultimately have a: "format_market_cap (Some 1500000) ''USD'' = Inr ''USD 1.50M''"
    using m by simp
  note u = format_market_cap_tiers[of "''USD''" 999999]
  have "format_market_cap (Some 999999) ''USD'' = Inr (''USD'' @ '' '' @ format_int 999999)"
    using u by simp
  moreover have "format_int 999999 = ''999,999''" by code_simp
  ultimately have b: "format_market_cap (Some 999999) ''USD'' = Inr ''USD 999,999''" by simp
  show ?thesis using a b by simp
qed

text \<open>
  Counterexample to C8 as stated: 5,000 lies in \<open>[1,000, 1,000,000)\<close> and is rendered as
  \<open>USD 5,000\<close>, without a thousand suffix.
\<close>

theorem format_market_cap_thousand_counterexample:
  "(1000 :: int) \<le> 5000 \<and> (5000 :: int) < 1000000 \<and>
   format_market_cap (Some 5000) ''USD'' = Inr ''USD 5,000''"
proof -
  have "format_market_cap (Some 5000) ''USD'' = Inr ''USD 5,000''" by code_simp
  then show ?thesis by simp
qed

subsection \<open>Trend classification\<close>

lemma trend_of_analyze:
  "trend (analyze_market_trend s) =
     Some [''short_term'' \<mapsto>
             (case (tech_get ti_last_close s, tech_get ti_sma_short s, tech_get ti_sma_long s) of
                (Some p, Some sh, Some lo) \<Rightarrow>
                  (if sh > lo \<and> p > sh then ''BULLISH '' @ [CHR 0xE2, CHR 0x86, CHR 0x97]
                   else if sh < lo \<and> p < sh then ''BEARISH '' @ [CHR 0xE2, CHR 0x86, CHR 0x98]
                   else ''NEUTRAL '' @ [CHR 0xE2, CHR 0x86, CHR 0x92])
              | _ \<Rightarrow> ''NEUTRAL''),
           ''price_vs_sma'' \<mapsto>
             (case (tech_get ti_last_close s, tech_get ti_sma_short s, tech_get ti_sma_long s) of
                (Some p, Some sh, Some lo) \<Rightarrow>
                  (if p > sh \<and> p > lo then ''Above both moving averages''
                   else if p < sh \<and> p < lo then ''Below both moving averages''
                   else ''center both moving averages'')
              | _ \<Rightarrow> ''Kh'' @ [CHR 0xC3, CHR 0xB4] @ ''ng x'' @ [CHR 0xC3, CHR 0xA1] @ ''c ''
                       @ [CHR 0xC4, CHR 0x91, CHR 0xE1, CHR 0xBB, CHR 0x8B] @ ''nh''),
           ''momentum'' \<mapsto>
             (case (tech_get ti_prev_close s, tech_get ti_last_close s) of
                (Some pc, Some p) \<Rightarrow> if p \<ge> pc then ''POSITIVE'' else ''NEGATIVE''
              | _ \<Rightarrow> ''NEUTRAL''),
           ''notes'' \<mapsto>
             join ''; ''
               (case tech_get ti_rsi s of
                  None \<Rightarrow> []
                | Some r \<Rightarrow>
                    if r > 70 then [''RSI indicates overbought conditions'']
                    else if r < 30 then [''RSI indicates oversale conditions'']
                    else [])]"
  by (simp add: analyze_market_trend_def Let_def split: option.splits prod.splits)

lemma momentum_of_analyze:
  "trend_get ''momentum'' (analyze_market_trend s) =
     Some (case (tech_get ti_prev_close s, tech_get ti_last_close s) of
             (Some pc, Some p) \<Rightarrow> if p \<ge> pc then ''POSITIVE'' else ''NEGATIVE''
           | _ \<Rightarrow> ''NEUTRAL'')"
  by (simp add: trend_get_def trend_of_analyze)

lemma short_term_of_analyze:
  "trend_get ''short_term'' (analyze_market_trend s) =
     Some (case (tech_get ti_last_close s, tech_get ti_sma_short s, tech_get ti_sma_long s) of
             (Some p, Some sh, Some lo) \<Rightarrow>
               (if sh > lo \<and> p > sh then ''BULLISH '' @ [CHR 0xE2, CHR 0x86, CHR 0x97]
                else if sh < lo \<and> p < sh then ''BEARISH '' @ [CHR 0xE2, CHR 0x86, CHR 0x98]
                else ''NEUTRAL '' @ [CHR 0xE2, CHR 0x86, CHR 0x92])
           | _ \<Rightarrow> ''NEUTRAL'')"
  by (simp add: trend_get_def trend_of_analyze)

text \<open>
  Claim C9, as amended. With \<open>price\<close> the latest close of the IndicatorSet: momentum is
  POSITIVE when \<open>price \<ge> previous close\<close>, NEGATIVE when \<open>price < previous close\<close>, and the
  label NEUTRAL (the key is always set) when the price or the previous close is null; the
  short-term direction is NEUTRAL whenever the price, the short average or the long average
  is null.
\<close>

theorem trend_momentum_and_direction:
  "(tech_get ti_last_close s = Some p \<and> tech_get ti_prev_close s = Some pc \<and> p \<ge> pc \<longrightarrow>
      trend_get ''momentum'' (analyze_market_trend s) = Some ''POSITIVE'') \<and>
   (tech_get ti_last_close s = Some p \<and> tech_get ti_prev_close s = Some pc \<and> p < pc \<longrightarrow>
      trend_get ''momentum'' (analyze_market_trend s) = Some ''NEGATIVE'') \<and>
   (tech_get ti_last_close s = None \<or> tech_get ti_prev_close s = None \<longrightarrow>
      trend_get ''momentum'' (analyze_market_trend s) = Some ''NEUTRAL'') \<and>
   (tech_get ti_last_close s = None \<or> tech_get ti_sma_short s = None \<or>
    tech_get ti_sma_long s = None \<longrightarrow>
      trend_get ''short_term'' (analyze_market_trend s) = Some ''NEUTRAL'')"
proof (intro conjI impI)
  assume "tech_get ti_last_close s = Some p \<and> tech_get ti_prev_close s = Some pc \<and> p \<ge> pc"
  then show "trend_get ''momentum'' (analyze_market_trend s) = Some ''POSITIVE''"
    by (simp add: momentum_of_analyze)
next
  assume "tech_get ti_last_close s = Some p \<and> tech_get ti_prev_close s = Some pc \<and> p < pc"
  then show "trend_get ''momentum'' (analyze_market_trend s) = Some ''NEGATIVE''"
    by (simp add: momentum_of_analyze)
next
  assume "tech_get ti_last_close s = None \<or> tech_get ti_prev_close s = None"
  then show "trend_get ''momentum'' (analyze_market_trend s) = Some ''NEUTRAL''"
    by (auto simp: momentum_of_analyze split: option.splits)
next
  assume "tech_get ti_last_close s = None \<or> tech_get ti_sma_short s = None \<or>
    tech_get ti_sma_long s = None"
  then show "trend_get ''short_term'' (analyze_market_trend s) = Some ''NEUTRAL''"
    by (auto simp: short_term_of_analyze split: option.splits)
qed

lemma example_state_tech:
  "tech_get ti_last_close example_state = Some 110"
  "tech_get ti_prev_close example_state = Some 112"
  "tech_get ti_sma_short example_state = Some 109"
  "tech_get ti_sma_long example_state = Some (213 / 2)"
  "tech_get ti_rsi example_state = Some 60"
  by (simp_all add: tech_get_def example_state_def example_tech_def)

lemma initial_state_tech: "tech_get f (initial_state t) = None"
  by (simp add: tech_get_def initial_state_def)

text \<open>
  Witness for C9 as amended: last close 110 under a previous close of 112 gives NEGATIVE; a
  state without indicators gives NEUTRAL for both labels.
\<close>

theorem trend_momentum_and_direction_witness:
  "tech_get ti_last_close example_state = Some 110 \<and>
   tech_get ti_prev_close example_state = Some 112 \<and> (110 :: rat) < 112 \<and>
   trend_get ''momentum'' (analyze_market_trend example_state) = Some ''NEGATIVE'' \<and>
   tech_get ti_last_close (initial_state ''aapl'') = None \<and>
   trend_get ''momentum'' (analyze_market_trend (initial_state ''aapl'')) = Some ''NEUTRAL'' \<and>
   trend_get ''short_term'' (analyze_market_trend (initial_state ''aapl'')) = Some ''NEUTRAL''"
proof -
  note a = trend_momentum_and_direction[of example_state 110 112]
  note b = trend_momentum_and_direction[of "initial_state ''aapl''" 0 0]
  have "trend_get ''momentum'' (analyze_market_trend example_state) = Some ''NEGATIVE''"
    using a by (simp add: example_state_tech)
  moreover have "trend_get ''momentum'' (analyze_market_trend (initial_state ''aapl'')) = Some ''NEUTRAL''"
    using b by (simp add: initial_state_tech)
  moreover have "trend_get ''short_term'' (analyze_market_trend (initial_state ''aapl'')) = Some ''NEUTRAL''"
    using b by (simp add: initial_state_tech)
  ultimately show ?thesis by (simp add: example_state_tech initial_state_tech)
qed

text \<open>
  Counterexample to C9 as stated: with the price and the previous close both null the
  \<open>momentum\<close> key of the trend is not left unset, it holds the label NEUTRAL.
\<close>

theorem momentum_never_unset_counterexample:
  "tech_get ti_last_close (initial_state ''aapl'') = None \<and>
   tech_get ti_prev_close (initial_state ''aapl'') = None \<and>
   trend_get ''momentum'' (analyze_market_trend (initial_state ''aapl'')) = Some ''NEUTRAL''"
  by (simp add: initial_state_tech momentum_of_analyze)

subsection \<open>The price the Recommendation stage works with\<close>

lemma current_price_of_falsy:
  assumes "info_get si_current_price s = None \<or> info_get si_current_price s = Some 0"
  shows "current_price_of s = tech_get ti_last_close s"
  using assms by (auto simp: current_price_of_def)

lemma report_lines_price_line:
  assumes "report_lines now_str s = Inr ls"
  shows "ls ! 4 = ''current price: '' @
           format_currency (map_option PyFloat (current_price_of s)) (currency_of s)"
proof (cases "format_market_cap (info_get si_market_cap s) (currency_of s)")
  case (Inl e)
  with assms show ?thesis by (simp add: report_lines_def Let_def split: prod.splits)
next
  case (Inr cap)
  with assms show ?thesis
    by (auto simp: report_lines_def Let_def split: prod.splits)
qed

lemma tech_get_stock_info_update [simp]: "tech_get g (s\<lparr>stock_info := v\<rparr>) = tech_get g s"
  by (simp add: tech_get_def)

lemma trend_get_stock_info_update [simp]: "trend_get k (s\<lparr>stock_info := v\<rparr>) = trend_get k s"
  by (simp add: trend_get_def)

lemma falsy_price_substitution:
  assumes i: "stock_info t = Some i"
    and f: "si_current_price i = None \<or> si_current_price i = Some 0"
  shows "report_lines now_str
           (t\<lparr>stock_info := Some (i\<lparr>si_current_price := tech_get ti_last_close t\<rparr>)\<rparr>) =
         report_lines now_str t"
proof -
  let ?t = "t\<lparr>stock_info := Some (i\<lparr>si_current_price := tech_get ti_last_close t\<rparr>)\<rparr>"
  have tg: "\<And>g. tech_get g ?t = tech_get g t" by simp
  have "current_price_of t = tech_get ti_last_close t"
    using i f by (auto simp: current_price_of_def info_get_def)
  moreover have "current_price_of ?t = tech_get ti_last_close t"
    by (cases "tech_get ti_last_close t") (simp_all add: current_price_of_def info_get_def)
  ultimately have cp: "current_price_of ?t = current_price_of t" by simp
  have sy: "symbol_of ?t = symbol_of t" using i by (simp add: symbol_of_def)
  have ln: "long_name_of ?t = long_name_of t" using i by (simp add: long_name_of_def sy)
  have cu: "currency_of ?t = currency_of t" using i by (simp add: currency_of_def)
  have mc: "info_get si_market_cap ?t = info_get si_market_cap t" using i by (simp add: info_get_def)
  have at: "analysis_time_of now_str ?t = analysis_time_of now_str t"
    using i by (simp add: analysis_time_of_def)
  have tr: "\<And>k. trend_get k ?t = trend_get k t" by simp
  have td: "\<And>k d. trend_get_default k d ?t = trend_get_default k d t"
    by (simp add: trend_get_default_def tr)
  have re: "recommendation ?t = recommendation t" by (simp add: recommendation_def cp tg)
  have er: "errors ?t = errors t" by simp
  show ?thesis
    unfolding report_lines_def sy ln cp tg cu mc at tr td re er ..
qed

lemma ensure_errors_stock_info_update:
  "ensure_errors (s\<lparr>stock_info := v\<rparr>) = (ensure_errors s)\<lparr>stock_info := v\<rparr>"
  by (simp add: ensure_errors_def split: option.splits)

lemma stock_info_ensure_errors [simp]: "stock_info (ensure_errors s) = stock_info s"
  by (simp add: ensure_errors_def split: option.splits)

lemma falsy_price_same_report:
  assumes i: "stock_info s = Some i"
    and f: "si_current_price i = None \<or> si_current_price i = Some 0"
  shows "map_sum id report
           (generate_recommendation now_str
              (s\<lparr>stock_info := Some (i\<lparr>si_current_price := tech_get ti_last_close s\<rparr>)\<rparr>)) =
         map_sum id report (generate_recommendation now_str s)"
proof -
  let ?v = "Some (i\<lparr>si_current_price := tech_get ti_last_close s\<rparr>)"
  let ?e = "ensure_errors s"
  have i': "stock_info ?e = Some i" using i by simp
  have "report_lines now_str
           (?e\<lparr>stock_info := Some (i\<lparr>si_current_price := tech_get ti_last_close ?e\<rparr>)\<rparr>) =
         report_lines now_str ?e"
    using i' f by (rule falsy_price_substitution)
  then have rl: "report_lines now_str (?e\<lparr>stock_info := ?v\<rparr>) = report_lines now_str ?e"
    by simp
  have nv: "not_valid (?e\<lparr>stock_info := ?v\<rparr>) = not_valid ?e" by (simp add: not_valid_def)
  show ?thesis
    unfolding generate_recommendation_def ensure_errors_stock_info_update Let_def nv rl
    by (simp split: sum.splits)
qed

lemma example_state_quote: "info_get si_current_price example_state = Some 0"
  by (simp add: info_get_def example_state_def example_info_def)

lemma example_state_report_lines:
  "\<exists>ls. report_lines now_str example_state = Inr ls"
proof -
  have "format_market_cap (info_get si_market_cap example_state) (currency_of example_state) =
        Inr ''USD 2.50B''"
    using format_market_cap_example
    by (simp add: info_get_def currency_of_def example_state_def example_info_def)
  then show ?thesis by (simp add: report_lines_def Let_def split: prod.splits)
qed

subsection \<open>The run of the graph\<close>

lemma ensure_errors_frame:
  "ticker (ensure_errors s) = ticker s"
  "historical_data (ensure_errors s) = historical_data s"
  "technical_indicators (ensure_errors s) = technical_indicators s"
  "trend (ensure_errors s) = trend s"
  "report (ensure_errors s) = report s"
  "is_valid (ensure_errors s) = is_valid s"
  by (simp_all add: ensure_errors_def split: option.splits)

lemma ensure_errors_errors:
  "errors (ensure_errors s) = Some (case errors s of None \<Rightarrow> [] | Some es \<Rightarrow> es)"
  by (simp add: ensure_errors_def split: option.splits)

lemma append_error_frame:
  "ticker (append_error m s) = ticker s"
  "stock_info (append_error m s) = stock_info s"
  "historical_data (append_error m s) = historical_data s"
  "technical_indicators (append_error m s) = technical_indicators s"
  "trend (append_error m s) = trend s"
  "report (append_error m s) = report s"
  "is_valid (append_error m s) = is_valid s"
  by (simp_all add: append_error_def)

lemma validate_ticker_frame:
  "ticker (validate_ticker gw s) = ticker s"
  "stock_info (validate_ticker gw s) = stock_info s"
  "historical_data (validate_ticker gw s) = historical_data s"
  "technical_indicators (validate_ticker gw s) = technical_indicators s"
  "trend (validate_ticker gw s) = trend s"
  "report (validate_ticker gw s) = report s"
  by (simp_all add: validate_ticker_def Let_def append_error_frame ensure_errors_frame
      split: attempt.splits option.splits)


lemma errors_append_error:
  "errors (append_error m s) = Some ((case errors s of None \<Rightarrow> [] | Some es \<Rightarrow> es) @ [m])"
  by (simp add: append_error_def)

lemma validate_ticker_invalid_errors:
  assumes "is_valid (validate_ticker gw s) = Flag False"
  shows "\<exists>es. errors (validate_ticker gw s) = Some es \<and> es \<noteq> []"
  using assms
  by (auto simp: validate_ticker_def Let_def append_error_frame errors_append_error
      split: attempt.splits option.splits if_splits)

lemma generate_recommendation_invalid:
  assumes "not_valid s" "errors s = Some es"
  shows "generate_recommendation now_str s =
     Inr (s\<lparr>report := Some
            ((''M'' @ [CHR 0xC3, CHR 0xA3] @ '' c'' @ [CHR 0xE1, CHR 0xBB, CHR 0x95] @ '' phi'' @ [CHR 0xE1, CHR 0xBA, CHR 0xBF] @ ''u kh'' @ [CHR 0xC3, CHR 0xB4] @ ''ng h'' @ [CHR 0xE1, CHR 0xBB, CHR 0xA3] @ ''p l'' @ [CHR 0xE1, CHR 0xBB, CHR 0x87] @ '': '')
             @ (case ticker s of None \<Rightarrow> ''UNKNOWN'' | Some t \<Rightarrow> t) @ ''. L'' @ [CHR 0xE1, CHR 0xBB, CHR 0x97] @ ''i: '' @ join ''; '' es)\<rparr>)"
proof -
  have e: "ensure_errors s = s" using assms(2) by (simp add: ensure_errors_def)
  show ?thesis using assms by (simp add: generate_recommendation_def e Let_def)
qed

text \<open>
  Claim C5. When Validation sets \<open>is_valid\<close> to false, the run goes from Validation straight to
  Recommendation and ends without an exception; Quote Snapshot, PriceBar sequence,
  IndicatorSet and TrendAssessment are what they were before the run (unset, for a run
  started from a ticker alone); the accumulated errors are those Validation left, at least
  one; and the report is the source's invalid-ticker message with the ticker and the errors
  joined by \<open>"; "\<close>, nothing else.
\<close>

theorem invalid_run_short_circuits:
  assumes "is_valid (validate_ticker gw s0) = Flag False"
  shows "\<exists>s' es. invoke gw s0 = Inr s' \<and>
     errors (validate_ticker gw s0) = Some es \<and> es \<noteq> [] \<and> errors s' = Some es \<and>
     stock_info s' = stock_info s0 \<and> historical_data s' = historical_data s0 \<and>
     technical_indicators s' = technical_indicators s0 \<and> trend s' = trend s0 \<and>
     report s' = Some
       ((''M'' @ [CHR 0xC3, CHR 0xA3] @ '' c'' @ [CHR 0xE1, CHR 0xBB, CHR 0x95] @ '' phi'' @ [CHR 0xE1, CHR 0xBA, CHR 0xBF] @ ''u kh'' @ [CHR 0xC3, CHR 0xB4] @ ''ng h'' @ [CHR 0xE1, CHR 0xBB, CHR 0xA3] @ ''p l'' @ [CHR 0xE1, CHR 0xBB, CHR 0x87] @ '': '')
        @ (case ticker s0 of None \<Rightarrow> ''UNKNOWN'' | Some t \<Rightarrow> t) @ ''. L'' @ [CHR 0xE1, CHR 0xBB, CHR 0x97] @ ''i: '' @ join ''; '' es)"
proof -
  let ?s1 = "validate_ticker gw s0"
  from assms obtain es where es: "errors ?s1 = Some es" "es \<noteq> []"
    using validate_ticker_invalid_errors by blast
  have nv: "not_valid ?s1" using assms by (simp add: not_valid_def)
  have route: "route_after_validate ?s1 = ''generate_recommendation''"
    using assms by (simp add: route_after_validate_def)
  let ?s' = "?s1\<lparr>report := Some
            ((''M'' @ [CHR 0xC3, CHR 0xA3] @ '' c'' @ [CHR 0xE1, CHR 0xBB, CHR 0x95] @ '' phi'' @ [CHR 0xE1, CHR 0xBA, CHR 0xBF] @ ''u kh'' @ [CHR 0xC3, CHR 0xB4] @ ''ng h'' @ [CHR 0xE1, CHR 0xBB, CHR 0xA3] @ ''p l'' @ [CHR 0xE1, CHR 0xBB, CHR 0x87] @ '': '')
             @ (case ticker ?s1 of None \<Rightarrow> ''UNKNOWN'' | Some t \<Rightarrow> t) @ ''. L'' @ [CHR 0xE1, CHR 0xBB, CHR 0x97] @ ''i: '' @ join ''; '' es)\<rparr>"
  have "invoke gw s0 = generate_recommendation (now gw) ?s1"
    by (simp add: invoke_def Let_def route)
  also have "\<dots> = Inr ?s'" using nv es(1) by (rule generate_recommendation_invalid)
  finally have run: "invoke gw s0 = Inr ?s'" .
  have "errors ?s' = Some es" using es(1) by simp
  moreover have "stock_info ?s' = stock_info s0" "historical_data ?s' = historical_data s0"
    "technical_indicators ?s' = technical_indicators s0" "trend ?s' = trend s0"
    by (simp_all add: validate_ticker_frame)
  moreover have "report ?s' = Some
       ((''M'' @ [CHR 0xC3, CHR 0xA3] @ '' c'' @ [CHR 0xE1, CHR 0xBB, CHR 0x95] @ '' phi'' @ [CHR 0xE1, CHR 0xBA, CHR 0xBF] @ ''u kh'' @ [CHR 0xC3, CHR 0xB4] @ ''ng h'' @ [CHR 0xE1, CHR 0xBB, CHR 0xA3] @ ''p l'' @ [CHR 0xE1, CHR 0xBB, CHR 0x87] @ '': '')
        @ (case ticker s0 of None \<Rightarrow> ''UNKNOWN'' | Some t \<Rightarrow> t) @ ''. L'' @ [CHR 0xE1, CHR 0xBB, CHR 0x97] @ ''i: '' @ join ''; '' es)"
    by (simp add: validate_ticker_frame)
  ultimately show ?thesis using run es by blast
qed

lemma validate_unknown_symbol:
  "is_valid (validate_ticker example_gateway (initial_state '' zzzz '')) = Flag False"
  "errors (validate_ticker example_gateway (initial_state '' zzzz '')) =
     Some [''Kh'' @ [CHR 0xC3, CHR 0xB4] @ ''ng t'' @ [CHR 0xC3, CHR 0xAC] @ ''m th'' @ [CHR 0xE1, CHR 0xBA, CHR 0xA5] @ ''y m'' @ [CHR 0xC3, CHR 0xA3] @ '' c'' @ [CHR 0xE1, CHR 0xBB, CHR 0x95] @ '' phi'' @ [CHR 0xE1, CHR 0xBA, CHR 0xBF] @ ''u: ZZZZ'']"
  by code_simp+

text \<open>
  Witness for C5: the unknown symbol \<open>" zzzz "\<close> has no trading session and no quote;
  the run leaves every data field unset and reports the ticker and the one error.
\<close>

theorem invalid_run_short_circuits_witness:
  "is_valid (validate_ticker example_gateway (initial_state '' zzzz '')) = Flag False \<and>
   (\<exists>s'. invoke example_gateway (initial_state '' zzzz '') = Inr s' \<and>
      stock_info s' = None \<and> historical_data s' = None \<and> technical_indicators s' = None \<and>
      trend s' = None \<and>
      report s' = Some
        ((''M'' @ [CHR 0xC3, CHR 0xA3] @ '' c'' @ [CHR 0xE1, CHR 0xBB, CHR 0x95] @ '' phi'' @ [CHR 0xE1, CHR 0xBA, CHR 0xBF] @ ''u kh'' @ [CHR 0xC3, CHR 0xB4] @ ''ng h'' @ [CHR 0xE1, CHR 0xBB, CHR 0xA3] @ ''p l'' @ [CHR 0xE1, CHR 0xBB, CHR 0x87] @ '': '') @ '' zzzz '' @ ''. L'' @ [CHR 0xE1, CHR 0xBB, CHR 0x97] @ ''i: ''
         @ ''Kh'' @ [CHR 0xC3, CHR 0xB4] @ ''ng t'' @ [CHR 0xC3, CHR 0xAC] @ ''m th'' @ [CHR 0xE1, CHR 0xBA, CHR 0xA5] @ ''y m'' @ [CHR 0xC3, CHR 0xA3] @ '' c'' @ [CHR 0xE1, CHR 0xBB, CHR 0x95] @ '' phi'' @ [CHR 0xE1, CHR 0xBA, CHR 0xBF] @ ''u: ZZZZ''))"
proof -
  have h: "is_valid (validate_ticker example_gateway (initial_state '' zzzz '')) = Flag False"
    by (simp add: validate_unknown_symbol)
  from invalid_run_short_circuits[OF h]
  obtain s' es where r: "invoke example_gateway (initial_state '' zzzz '') = Inr s'"
    "errors (validate_ticker example_gateway (initial_state '' zzzz '')) = Some es"
    "stock_info s' = stock_info (initial_state '' zzzz '')"
    "historical_data s' = historical_data (initial_state '' zzzz '')"
    "technical_indicators s' = technical_indicators (initial_state '' zzzz '')"
    "trend s' = trend (initial_state '' zzzz '')"
    "report s' = Some
       ((''M'' @ [CHR 0xC3, CHR 0xA3] @ '' c'' @ [CHR 0xE1, CHR 0xBB, CHR 0x95] @ '' phi'' @ [CHR 0xE1, CHR 0xBA, CHR 0xBF] @ ''u kh'' @ [CHR 0xC3, CHR 0xB4] @ ''ng h'' @ [CHR 0xE1, CHR 0xBB, CHR 0xA3] @ ''p l'' @ [CHR 0xE1, CHR 0xBB, CHR 0x87] @ '': '')
        @ (case ticker (initial_state '' zzzz '') of None \<Rightarrow> ''UNKNOWN'' | Some t \<Rightarrow> t)
        @ ''. L'' @ [CHR 0xE1, CHR 0xBB, CHR 0x97] @ ''i: '' @ join ''; '' es)"
    by blast
  have es: "es = [''Kh'' @ [CHR 0xC3, CHR 0xB4] @ ''ng t'' @ [CHR 0xC3, CHR 0xAC] @ ''m th'' @ [CHR 0xE1, CHR 0xBA, CHR 0xA5] @ ''y m'' @ [CHR 0xC3, CHR 0xA3] @ '' c'' @ [CHR 0xE1, CHR 0xBB, CHR 0x95] @ '' phi'' @ [CHR 0xE1, CHR 0xBA, CHR 0xBF] @ ''u: ZZZZ'']"
    using r(2) by (simp add: validate_unknown_symbol)
  have "stock_info s' = None" "historical_data s' = None" "technical_indicators s' = None"
    "trend s' = None"
    using r(3-6) by (simp_all add: initial_state_def)
  moreover have "report s' = Some
        ((''M'' @ [CHR 0xC3, CHR 0xA3] @ '' c'' @ [CHR 0xE1, CHR 0xBB, CHR 0x95] @ '' phi'' @ [CHR 0xE1, CHR 0xBA, CHR 0xBF] @ ''u kh'' @ [CHR 0xC3, CHR 0xB4] @ ''ng h'' @ [CHR 0xE1, CHR 0xBB, CHR 0xA3] @ ''p l'' @ [CHR 0xE1, CHR 0xBB, CHR 0x87] @ '': '') @ '' zzzz '' @ ''. L'' @ [CHR 0xE1, CHR 0xBB, CHR 0x97] @ ''i: ''
         @ ''Kh'' @ [CHR 0xC3, CHR 0xB4] @ ''ng t'' @ [CHR 0xC3, CHR 0xAC] @ ''m th'' @ [CHR 0xE1, CHR 0xBA, CHR 0xA5] @ ''y m'' @ [CHR 0xC3, CHR 0xA3] @ '' c'' @ [CHR 0xE1, CHR 0xBB, CHR 0x95] @ '' phi'' @ [CHR 0xE1, CHR 0xBA, CHR 0xBF] @ ''u: ZZZZ'')"
    using r(7) es by (simp add: initial_state_def)
  ultimately show ?thesis using h r(1) by blast
qed

text \<open>
  Claim C7 fails on the code. The run for \<open>aapl\<close> is valid and its report holds every section
  in the fixed order, but as one line: \<open>generate_recommendation\<close> joins its list \<open>lines\<close>
  with the empty string, so no line feed separates the sections and the empty entries it
  appends as blank lines leave no trace.
\<close>

theorem report_without_line_breaks:
  "run_agent example_gateway ''aapl'' = Inr
     (''================================================Stock Analysis Report================================================stock: Apple Inc. (AAPL)current price: USD 113.00maeket cap: USD 2.50Banalysis_time: 2024-01-02 03:04:05Technical Indicator--------------------'' @ [CHR 0xE2, CHR 0x80, CHR 0xA2] @ '' SMA 10 days: USD 109.00'' @ [CHR 0xE2, CHR 0x80, CHR 0xA2] @ '' SMA 20 day: USD 106.50'' @ [CHR 0xE2, CHR 0x80, CHR 0xA2] @ '' RSI (14 days): 60.00trend analysiss--------------------'' @ [CHR 0xE2, CHR 0x80, CHR 0xA2] @ '' short trend: BULLISH '' @ [CHR 0xE2, CHR 0x86, CHR 0x97, CHR 0xE2, CHR 0x80, CHR 0xA2] @ '' Price compared to SMA : Above both moving averages'' @ [CHR 0xE2, CHR 0x80, CHR 0xA2] @ '' Momentum: NEGATIVEFinal Recommendation--------------------'' @ [CHR 0xE2, CHR 0x80, CHR 0xA2] @ '' decision: BUY'' @ [CHR 0xE2, CHR 0x80, CHR 0xA2] @ '' reason: price > SMA10 > SMA20 v'' @ [CHR 0xC3, CHR 0xA0] @ '' RSI within 30-70 '') \<and>
   CHR 0x0A \<notin> set
     (''================================================Stock Analysis Report================================================stock: Apple Inc. (AAPL)current price: USD 113.00maeket cap: USD 2.50Banalysis_time: 2024-01-02 03:04:05Technical Indicator--------------------'' @ [CHR 0xE2, CHR 0x80, CHR 0xA2] @ '' SMA 10 days: USD 109.00'' @ [CHR 0xE2, CHR 0x80, CHR 0xA2] @ '' SMA 20 day: USD 106.50'' @ [CHR 0xE2, CHR 0x80, CHR 0xA2] @ '' RSI (14 days): 60.00trend analysiss--------------------'' @ [CHR 0xE2, CHR 0x80, CHR 0xA2] @ '' short trend: BULLISH '' @ [CHR 0xE2, CHR 0x86, CHR 0x97, CHR 0xE2, CHR 0x80, CHR 0xA2] @ '' Price compared to SMA : Above both moving averages'' @ [CHR 0xE2, CHR 0x80, CHR 0xA2] @ '' Momentum: NEGATIVEFinal Recommendation--------------------'' @ [CHR 0xE2, CHR 0x80, CHR 0xA2] @ '' decision: BUY'' @ [CHR 0xE2, CHR 0x80, CHR 0xA2] @ '' reason: price > SMA10 > SMA20 v'' @ [CHR 0xC3, CHR 0xA0] @ '' RSI within 30-70 '')"
proof -
  have "run_agent example_gateway ''aapl'' = Inr
     (''================================================Stock Analysis Report================================================stock: Apple Inc. (AAPL)current price: USD 113.00maeket cap: USD 2.50Banalysis_time: 2024-01-02 03:04:05Technical Indicator--------------------'' @ [CHR 0xE2, CHR 0x80, CHR 0xA2] @ '' SMA 10 days: USD 109.00'' @ [CHR 0xE2, CHR 0x80, CHR 0xA2] @ '' SMA 20 day: USD 106.50'' @ [CHR 0xE2, CHR 0x80, CHR 0xA2] @ '' RSI (14 days): 60.00trend analysiss--------------------'' @ [CHR 0xE2, CHR 0x80, CHR 0xA2] @ '' short trend: BULLISH '' @ [CHR 0xE2, CHR 0x86, CHR 0x97, CHR 0xE2, CHR 0x80, CHR 0xA2] @ '' Price compared to SMA : Above both moving averages'' @ [CHR 0xE2, CHR 0x80, CHR 0xA2] @ '' Momentum: NEGATIVEFinal Recommendation--------------------'' @ [CHR 0xE2, CHR 0x80, CHR 0xA2] @ '' decision: BUY'' @ [CHR 0xE2, CHR 0x80, CHR 0xA2] @ '' reason: price > SMA10 > SMA20 v'' @ [CHR 0xC3, CHR 0xA0] @ '' RSI within 30-70 '')"
    by code_simp
  then show ?thesis by simp
qed

subsection \<open>The report of the Recommendation stage\<close>

lemma ensure_errors_update:
  "ensure_errors s = s\<lparr>errors := Some (case errors s of None \<Rightarrow> [] | Some es \<Rightarrow> es)\<rparr>"
  by (cases "errors s") (simp_all add: ensure_errors_def)

lemma helpers_errors_update [simp]:
  "symbol_of (s\<lparr>errors := e\<rparr>) = symbol_of s"
  "currency_of (s\<lparr>errors := e\<rparr>) = currency_of s"
  "analysis_time_of n (s\<lparr>errors := e\<rparr>) = analysis_time_of n s"
  "trend_get k (s\<lparr>errors := e\<rparr>) = trend_get k s"
  "not_valid (s\<lparr>errors := e\<rparr>) = not_valid s"
  by (simp_all add: symbol_of_def currency_of_def analysis_time_of_def trend_get_def not_valid_def)

lemma helpers_errors_update2 [simp]:
  "long_name_of (s\<lparr>errors := e\<rparr>) = long_name_of s"
  "trend_get_default k d (s\<lparr>errors := e\<rparr>) = trend_get_default k d s"
  by (simp_all add: long_name_of_def trend_get_default_def split: option.splits)

lemma helpers_ensure_errors [simp]:
  "symbol_of (ensure_errors s) = symbol_of s"
  "long_name_of (ensure_errors s) = long_name_of s"
  "currency_of (ensure_errors s) = currency_of s"
  "analysis_time_of n (ensure_errors s) = analysis_time_of n s"
  "trend_get k (ensure_errors s) = trend_get k s"
  "trend_get_default k d (ensure_errors s) = trend_get_default k d s"
  "not_valid (ensure_errors s) = not_valid s"
  by (simp_all add: ensure_errors_update)

lemma errors_list_ensure_errors:
  "(case errors (ensure_errors s) of None \<Rightarrow> [] | Some es \<Rightarrow> es) =
   (case errors s of None \<Rightarrow> [] | Some es \<Rightarrow> es)"
  by (simp add: ensure_errors_def split: option.splits)

lemma report_lines_ensure_errors: "report_lines n (ensure_errors s) = report_lines n s"
  unfolding report_lines_def
  by (simp only: helpers_ensure_errors tech_get_ensure_errors info_get_ensure_errors
      current_price_of_ensure_errors recommendation_ensure_errors errors_list_ensure_errors)

lemma generate_recommendation_valid:
  assumes "\<not> not_valid s"
  shows "generate_recommendation n s =
     (case report_lines n s of
        Inl e \<Rightarrow> Inl e
      | Inr ls \<Rightarrow> Inr ((ensure_errors s)\<lparr>report := Some (join [] ls)\<rparr>))"
  using assms by (simp add: generate_recommendation_def Let_def report_lines_ensure_errors)

lemma helpers_report_update [simp]:
  "tech_get f (s\<lparr>report := v\<rparr>) = tech_get f s"
  "info_get g (s\<lparr>report := v\<rparr>) = info_get g s"
  by (simp_all add: tech_get_def info_get_def)

lemma current_price_of_report_update [simp]:
  "current_price_of (s\<lparr>report := v\<rparr>) = current_price_of s"
  by (simp add: current_price_of_def split: option.splits)

lemma recommendation_reasons: "snd (recommendation s) \<noteq> []"
  by (simp add: recommendation_def decide_def split: option.splits)

lemma report_lines_shape:
  assumes "report_lines n s = Inr ls"
  shows "\<exists>a b c. length a = 4 \<and>
     ls = a @ [''current price: '' @
                 format_currency (map_option PyFloat (current_price_of s)) (currency_of s)]
            @ b
            @ [[], ''Final Recommendation'', replicate 20 (CHR ''-''),
               bullet @ '' decision: '' @ fst (recommendation s),
               bullet @ '' reason: '' @ join '', '' (snd (recommendation s))]
            @ c"
proof (cases "format_market_cap (info_get si_market_cap s) (currency_of s)")
  case (Inl e)
  with assms show ?thesis by (simp add: report_lines_def Let_def split: prod.splits)
next
  case (Inr cap)
  obtain d rs where dr: "recommendation s = (d, rs)" by (cases "recommendation s")
  have rs: "rs \<noteq> []" using recommendation_reasons[of s] dr by simp
  let ?a = "[replicate 48 (CHR ''=''), ''Stock Analysis Report'', replicate 48 (CHR ''=''),
             ''stock: '' @ long_name_of s @ '' ('' @ symbol_of s @ '')'']"
  let ?b = "[''maeket cap: '' @ cap,
             ''analysis_time: '' @ analysis_time_of n s,
             [],
             ''Technical Indicator'',
             replicate 20 (CHR ''-''),
             bullet @ '' SMA 10 days: '' @
               format_currency (map_option PyFloat (tech_get ti_sma_short s)) (currency_of s),
             bullet @ '' SMA 20 day: '' @
               format_currency (map_option PyFloat (tech_get ti_sma_long s)) (currency_of s),
             (case tech_get ti_rsi s of
                Some r \<Rightarrow> bullet @ '' RSI (14 days): '' @ format_float False r
              | None \<Rightarrow> bullet @ '' RSI (14 day): N/A''),
             [],
             ''trend analysiss'',
             replicate 20 (CHR ''-''),
             bullet @ '' short trend: '' @ trend_get_default ''short_term'' ''N/A'' s,
             bullet @ '' Price compared to SMA : '' @ trend_get_default ''price_vs_sma'' ''N/A'' s,
             bullet @ '' Momentum: '' @ trend_get_default ''momentum'' ''N/A'' s]
            @ (case trend_get ''notes'' s of
                 None \<Rightarrow> []
               | Some nt \<Rightarrow> if nt \<noteq> [] then [bullet @ '' notes: '' @ nt] else [])"
  let ?c = "(if (case errors s of None \<Rightarrow> [] | Some es \<Rightarrow> es) \<noteq> []
             then [[], ''wraning: '' @ join ''; '' (case errors s of None \<Rightarrow> [] | Some es \<Rightarrow> es)]
             else [])"
  have "ls = ?a @ [''current price: '' @
                 format_currency (map_option PyFloat (current_price_of s)) (currency_of s)]
            @ ?b
            @ [[], ''Final Recommendation'', replicate 20 (CHR ''-''),
               bullet @ '' decision: '' @ fst (recommendation s),
               bullet @ '' reason: '' @ join '', '' (snd (recommendation s))]
            @ ?c"
    using assms Inr dr rs by (simp add: report_lines_def Let_def)
  moreover have "length ?a = 4" by simp
  ultimately show ?thesis by blast
qed

lemma valid_report_shape:
  assumes v: "\<not> not_valid s" and run: "generate_recommendation n s = Inr s'"
  shows "\<exists>a b c. length a = 4 \<and>
     report s' = Some (join []
       (a @ [''current price: '' @
               format_currency (map_option PyFloat (current_price_of s)) (currency_of s)]
          @ b
          @ [[], ''Final Recommendation'', replicate 20 (CHR ''-''),
             bullet @ '' decision: '' @ fst (recommendation s),
             bullet @ '' reason: '' @ join '', '' (snd (recommendation s))]
          @ c))"
proof (cases "report_lines n s")
  case (Inl e)
  with v run show ?thesis by (simp add: generate_recommendation_valid)
next
  case (Inr ls)
  with v run have s': "s' = (ensure_errors s)\<lparr>report := Some (join [] ls)\<rparr>"
    by (simp add: generate_recommendation_valid)
  from report_lines_shape[OF Inr] obtain a b c where "length a = 4"
    "ls = a @ [''current price: '' @
                 format_currency (map_option PyFloat (current_price_of s)) (currency_of s)]
            @ b
            @ [[], ''Final Recommendation'', replicate 20 (CHR ''-''),
               bullet @ '' decision: '' @ fst (recommendation s),
               bullet @ '' reason: '' @ join '', '' (snd (recommendation s))]
            @ c"
    by blast
  then show ?thesis unfolding s' by auto
qed


lemma decide_present_explicit:
  "decide (Some cp) (Some s10) (Some s20) (Some r) =
     (if cp > s10 \<and> s10 > s20 \<and> 30 \<le> r \<and> r \<le> 70
      then (''BUY'', [''price > SMA10 > SMA20 v'' @ [CHR 0xC3, CHR 0xA0] @ '' RSI within 30-70 ''])
      else if cp < s20 \<and> s20 < s10 \<and> r > 70
      then (''SELL'', [''price < SMA20 < SMA10 v'' @ [CHR 0xC3, CHR 0xA0] @ '' RSI > 70 ''])
      else (''HOLD'', [''not qualifify to buy/sale'']))"
  by (simp add: decide_def buy_condition_def sell_condition_def)







lemma join_singleton: "join sep [x] = x"
  by simp






lemma example_state_valid: "\<not> not_valid example_state"
  by (simp add: not_valid_def example_state_def)

lemma example_state_runs: "\<exists>s'. generate_recommendation n example_state = Inr s'"
proof -
  obtain ls where "report_lines n example_state = Inr ls"
    using example_state_report_lines by blast
  then show ?thesis by (simp add: generate_recommendation_valid example_state_valid)
qed





lemma falsy_quote_price_helpers:
  assumes "info_get si_current_price s = None \<or> info_get si_current_price s = Some 0"
  shows "current_price_of s = tech_get ti_last_close s \<and>
     recommendation s =
       decide (tech_get ti_last_close s) (tech_get ti_sma_short s) (tech_get ti_sma_long s)
         (tech_get ti_rsi s) \<and>
     (\<forall>ls. report_lines now_str s = Inr ls \<longrightarrow>
        ls ! 4 = ''current price: '' @
          format_currency (map_option PyFloat (tech_get ti_last_close s)) (currency_of s)) \<and>
     (\<forall>i. stock_info s = Some i \<longrightarrow>
        map_sum id report
          (generate_recommendation now_str
             (s\<lparr>stock_info := Some (i\<lparr>si_current_price := tech_get ti_last_close s\<rparr>)\<rparr>)) =
        map_sum id report (generate_recommendation now_str s))"
proof (intro conjI allI impI)
  show cp: "current_price_of s = tech_get ti_last_close s"
    using assms by (rule current_price_of_falsy)
  show "recommendation s =
       decide (tech_get ti_last_close s) (tech_get ti_sma_short s) (tech_get ti_sma_long s)
         (tech_get ti_rsi s)"
    by (simp add: recommendation_def cp)
  fix ls assume "report_lines now_str s = Inr ls"
  then show "ls ! 4 = ''current price: '' @
          format_currency (map_option PyFloat (tech_get ti_last_close s)) (currency_of s)"
    using report_lines_price_line[of now_str s ls] cp by simp
next
  fix i assume i: "stock_info s = Some i"
  with assms have "si_current_price i = None \<or> si_current_price i = Some 0"
    by (simp add: info_get_def)
  with i show "map_sum id report
          (generate_recommendation now_str
             (s\<lparr>stock_info := Some (i\<lparr>si_current_price := tech_get ti_last_close s\<rparr>)\<rparr>)) =
        map_sum id report (generate_recommendation now_str s)"
    by (rule falsy_price_same_report)
qed


lemma format_currency_float:
  "format_currency (map_option PyFloat x) c =
     (case x of None \<Rightarrow> ''N/A'' | Some v \<Rightarrow> c @ '' '' @ format_float True v)"
  by (simp add: format_currency_def split: option.splits)

text \<open>
  Claim C10. Let the Quote Snapshot's current price be null or exactly 0. Then whenever
  \<open>generate_recommendation\<close> returns on a state that is not invalid, the fifth line of its
  report is the price line rendered from the last close of the IndicatorSet (\<open>N/A\<close> when
  there is none), and the decision line carries the decision the rule takes on the last
  close; with all indicators present that is BUY, SELL or HOLD by the inequalities on the
  last close. Moreover the stage's \<open>current_price\<close> is the last close, and the report is the
  one the stage produces when the last close is written into the snapshot as its current
  price. A quoted price of exactly 0 therefore reaches neither the decision nor the report.
\<close>

theorem falsy_quote_price_replaced:
  assumes "info_get si_current_price s = None \<or> info_get si_current_price s = Some 0"
  shows "(\<forall>s'. \<not> not_valid s \<and> generate_recommendation now_str s = Inr s' \<longrightarrow>
       (\<exists>a b c. length a = 4 \<and>
          report s' = Some (join []
            (a @ [''current price: '' @
                    (case tech_get ti_last_close s of
                       None \<Rightarrow> ''N/A''
                     | Some lc \<Rightarrow> currency_of s @ '' '' @ format_float True lc)]
               @ b
               @ [bullet @ '' decision: '' @
                    fst (decide (tech_get ti_last_close s) (tech_get ti_sma_short s)
                           (tech_get ti_sma_long s) (tech_get ti_rsi s))]
               @ c)))) \<and>
     (\<forall>s' lc s10 s20 r. \<not> not_valid s \<and> generate_recommendation now_str s = Inr s' \<and>
        tech_get ti_last_close s = Some lc \<and> tech_get ti_sma_short s = Some s10 \<and>
        tech_get ti_sma_long s = Some s20 \<and> tech_get ti_rsi s = Some r \<longrightarrow>
       (\<exists>a b c. length a = 4 \<and>
          report s' = Some (join []
            (a @ [''current price: '' @ currency_of s @ '' '' @ format_float True lc]
               @ b
               @ [bullet @ '' decision: '' @
                    (if lc > s10 \<and> s10 > s20 \<and> 30 \<le> r \<and> r \<le> 70 then ''BUY''
                     else if lc < s20 \<and> s20 < s10 \<and> r > 70 then ''SELL'' else ''HOLD'')]
               @ c)))) \<and>
     current_price_of s = tech_get ti_last_close s \<and>
     recommendation s =
       decide (tech_get ti_last_close s) (tech_get ti_sma_short s) (tech_get ti_sma_long s)
         (tech_get ti_rsi s) \<and>
     (\<forall>ls. report_lines now_str s = Inr ls \<longrightarrow>
        ls ! 4 = ''current price: '' @
          format_currency (map_option PyFloat (tech_get ti_last_close s)) (currency_of s)) \<and>
     (\<forall>i. stock_info s = Some i \<longrightarrow>
        map_sum id report
          (generate_recommendation now_str
             (s\<lparr>stock_info := Some (i\<lparr>si_current_price := tech_get ti_last_close s\<rparr>)\<rparr>)) =
        map_sum id report (generate_recommendation now_str s))"
proof -
  note h = falsy_quote_price_helpers[OF assms, of now_str]
  have cp: "current_price_of s = tech_get ti_last_close s" using h by blast
  have re: "recommendation s =
       decide (tech_get ti_last_close s) (tech_get ti_sma_short s) (tech_get ti_sma_long s)
         (tech_get ti_rsi s)" using h by blast
  have shape: "\<exists>a b c. length a = 4 \<and>
          report s' = Some (join []
            (a @ [''current price: '' @
                    (case tech_get ti_last_close s of
                       None \<Rightarrow> ''N/A''
                     | Some lc \<Rightarrow> currency_of s @ '' '' @ format_float True lc)]
               @ b
               @ [bullet @ '' decision: '' @
                    fst (decide (tech_get ti_last_close s) (tech_get ti_sma_short s)
                           (tech_get ti_sma_long s) (tech_get ti_rsi s))]
               @ c))"
    if v: "\<not> not_valid s" and run: "generate_recommendation now_str s = Inr s'" for s'
  proof -
    from valid_report_shape[OF v run] obtain a b c where l: "length a = 4" and
      r: "report s' = Some (join []
       (a @ [''current price: '' @
               format_currency (map_option PyFloat (current_price_of s)) (currency_of s)]
          @ b
          @ [[], ''Final Recommendation'', replicate 20 (CHR ''-''),
             bullet @ '' decision: '' @ fst (recommendation s),
             bullet @ '' reason: '' @ join '', '' (snd (recommendation s))]
          @ c))"
      by blast
    let ?b = "b @ [[], ''Final Recommendation'', replicate 20 (CHR ''-'')]"
    let ?c = "[bullet @ '' reason: '' @ join '', '' (snd (recommendation s))] @ c"
    have "report s' = Some (join []
            (a @ [''current price: '' @
                    (case tech_get ti_last_close s of
                       None \<Rightarrow> ''N/A''
                     | Some lc \<Rightarrow> currency_of s @ '' '' @ format_float True lc)]
               @ ?b
               @ [bullet @ '' decision: '' @
                    fst (decide (tech_get ti_last_close s) (tech_get ti_sma_short s)
                           (tech_get ti_sma_long s) (tech_get ti_rsi s))]
               @ ?c))"
      unfolding r cp format_currency_float re[symmetric] by simp
    with l show ?thesis by blast
  qed
  show ?thesis
  proof (intro conjI allI impI)
    fix s'
    assume "\<not> not_valid s \<and> generate_recommendation now_str s = Inr s'"
    then show "\<exists>a b c. length a = 4 \<and>
          report s' = Some (join []
            (a @ [''current price: '' @
                    (case tech_get ti_last_close s of
                       None \<Rightarrow> ''N/A''
                     | Some lc \<Rightarrow> currency_of s @ '' '' @ format_float True lc)]
               @ b
               @ [bullet @ '' decision: '' @
                    fst (decide (tech_get ti_last_close s) (tech_get ti_sma_short s)
                           (tech_get ti_sma_long s) (tech_get ti_rsi s))]
               @ c))"
      using shape by blast
  next
    fix s' lc s10 s20 r
    assume a: "\<not> not_valid s \<and> generate_recommendation now_str s = Inr s' \<and>
        tech_get ti_last_close s = Some lc \<and> tech_get ti_sma_short s = Some s10 \<and>
        tech_get ti_sma_long s = Some s20 \<and> tech_get ti_rsi s = Some r"
    then have v: "\<not> not_valid s" and run: "generate_recommendation now_str s = Inr s'" by simp_all
    have d: "fst (decide (tech_get ti_last_close s) (tech_get ti_sma_short s)
                           (tech_get ti_sma_long s) (tech_get ti_rsi s)) =
       (if lc > s10 \<and> s10 > s20 \<and> 30 \<le> r \<and> r \<le> 70 then ''BUY''
        else if lc < s20 \<and> s20 < s10 \<and> r > 70 then ''SELL'' else ''HOLD'')"
      using a by (simp add: decide_present_explicit)
    have p: "(case tech_get ti_last_close s of
                       None \<Rightarrow> ''N/A''
                     | Some lc \<Rightarrow> currency_of s @ '' '' @ format_float True lc) =
             currency_of s @ '' '' @ format_float True lc"
      using a by simp
    from shape[OF v run] show "\<exists>a b c. length a = 4 \<and>
          report s' = Some (join []
            (a @ [''current price: '' @ currency_of s @ '' '' @ format_float True lc]
               @ b
               @ [bullet @ '' decision: '' @
                    (if lc > s10 \<and> s10 > s20 \<and> 30 \<le> r \<and> r \<le> 70 then ''BUY''
                     else if lc < s20 \<and> s20 < s10 \<and> r > 70 then ''SELL'' else ''HOLD'')]
               @ c))"
      unfolding d p .
  next
    show "current_price_of s = tech_get ti_last_close s" by (rule cp)
    show "recommendation s =
       decide (tech_get ti_last_close s) (tech_get ti_sma_short s) (tech_get ti_sma_long s)
         (tech_get ti_rsi s)" by (rule re)
  next
    fix ls assume "report_lines now_str s = Inr ls"
    then show "ls ! 4 = ''current price: '' @
          format_currency (map_option PyFloat (tech_get ti_last_close s)) (currency_of s)"
      using h by blast
  next
    fix i assume "stock_info s = Some i"
    then show "map_sum id report
          (generate_recommendation now_str
             (s\<lparr>stock_info := Some (i\<lparr>si_current_price := tech_get ti_last_close s\<rparr>)\<rparr>)) =
        map_sum id report (generate_recommendation now_str s)"
      using h by blast
  qed
qed

lemma example_state_report:
  "map_sum id report (generate_recommendation ''2024-01-02 03:04:05'' example_state) =
     Inr (Some (''================================================Stock Analysis Report================================================stock: Apple Inc. (AAPL)current price: USD 110.00maeket cap: USD 2.50Banalysis_time: 2024-01-02 03:04:05Technical Indicator--------------------'' @ [CHR 0xE2, CHR 0x80, CHR 0xA2] @ '' SMA 10 days: USD 109.00'' @ [CHR 0xE2, CHR 0x80, CHR 0xA2] @ '' SMA 20 day: USD 106.50'' @ [CHR 0xE2, CHR 0x80, CHR 0xA2] @ '' RSI (14 days): 60.00trend analysiss--------------------'' @ [CHR 0xE2, CHR 0x80, CHR 0xA2] @ '' short trend: N/A'' @ [CHR 0xE2, CHR 0x80, CHR 0xA2] @ '' Price compared to SMA : N/A'' @ [CHR 0xE2, CHR 0x80, CHR 0xA2] @ '' Momentum: N/AFinal Recommendation--------------------'' @ [CHR 0xE2, CHR 0x80, CHR 0xA2] @ '' decision: BUY'' @ [CHR 0xE2, CHR 0x80, CHR 0xA2] @ '' reason: price > SMA10 > SMA20 v'' @ [CHR 0xC3, CHR 0xA0] @ '' RSI within 30-70 ''))"
  by code_simp

text \<open>
  Witness for C10: a quote of exactly 0 with a last close of 110. The stage returns, its
  price line reads \<open>USD 110.00\<close> and its decision is BUY; the whole report is evaluated, and
  it is the report of the state with 110 as the quoted price.
\<close>

theorem falsy_quote_price_replaced_witness:
  "info_get si_current_price example_state = Some 0 \<and>
   tech_get ti_last_close example_state = Some 110 \<and>
   \<not> not_valid example_state \<and>
   (\<exists>s' a b c. generate_recommendation ''2024-01-02 03:04:05'' example_state = Inr s' \<and> length a = 4 \<and>
      report s' = Some (join []
        (a @ [''current price: USD 110.00''] @ b @ [bullet @ '' decision: BUY''] @ c))) \<and>
   map_sum id report (generate_recommendation ''2024-01-02 03:04:05'' example_state) =
     Inr (Some (''================================================Stock Analysis Report================================================stock: Apple Inc. (AAPL)current price: USD 110.00maeket cap: USD 2.50Banalysis_time: 2024-01-02 03:04:05Technical Indicator--------------------'' @ [CHR 0xE2, CHR 0x80, CHR 0xA2] @ '' SMA 10 days: USD 109.00'' @ [CHR 0xE2, CHR 0x80, CHR 0xA2] @ '' SMA 20 day: USD 106.50'' @ [CHR 0xE2, CHR 0x80, CHR 0xA2] @ '' RSI (14 days): 60.00trend analysiss--------------------'' @ [CHR 0xE2, CHR 0x80, CHR 0xA2] @ '' short trend: N/A'' @ [CHR 0xE2, CHR 0x80, CHR 0xA2] @ '' Price compared to SMA : N/A'' @ [CHR 0xE2, CHR 0x80, CHR 0xA2] @ '' Momentum: N/AFinal Recommendation--------------------'' @ [CHR 0xE2, CHR 0x80, CHR 0xA2] @ '' decision: BUY'' @ [CHR 0xE2, CHR 0x80, CHR 0xA2] @ '' reason: price > SMA10 > SMA20 v'' @ [CHR 0xC3, CHR 0xA0] @ '' RSI within 30-70 '')) \<and>
   stock_info example_state = Some example_info \<and>
   map_sum id report
     (generate_recommendation ''2024-01-02 03:04:05''
        (example_state\<lparr>stock_info := Some (example_info\<lparr>si_current_price := Some 110\<rparr>)\<rparr>)) =
   map_sum id report (generate_recommendation ''2024-01-02 03:04:05'' example_state)"
proof -
  have h: "info_get si_current_price example_state = None \<or>
           info_get si_current_price example_state = Some 0"
    by (simp add: example_state_quote)
  note t = falsy_quote_price_replaced[OF h, of "''2024-01-02 03:04:05''"]
  obtain s1 where s1: "generate_recommendation ''2024-01-02 03:04:05'' example_state = Inr s1"
    using example_state_runs by blast
  have cu: "currency_of example_state = ''USD''"
    by (simp add: currency_of_def example_state_def example_info_def)
  have ff: "format_float True 110 = ''110.00''" by code_simp
  have "\<not> not_valid example_state \<and> generate_recommendation ''2024-01-02 03:04:05'' example_state = Inr s1 \<and>
        tech_get ti_last_close example_state = Some 110 \<and>
        tech_get ti_sma_short example_state = Some 109 \<and>
        tech_get ti_sma_long example_state = Some (213 / 2) \<and>
        tech_get ti_rsi example_state = Some 60"
    using s1 example_state_valid by (simp add: example_state_tech)
  from t[THEN conjunct2, THEN conjunct1, THEN spec, THEN spec, THEN spec, THEN spec, THEN spec,
         THEN mp, OF this]
  have "\<exists>a b c. length a = 4 \<and>
      report s1 = Some (join []
        (a @ [''current price: USD 110.00''] @ b @ [bullet @ '' decision: BUY''] @ c))"
    by (simp add: cu ff)
  then have w: "\<exists>s' a b c. generate_recommendation ''2024-01-02 03:04:05'' example_state = Inr s' \<and> length a = 4 \<and>
      report s' = Some (join []
        (a @ [''current price: USD 110.00''] @ b @ [bullet @ '' decision: BUY''] @ c))"
    using s1 by blast
  have si: "stock_info example_state = Some example_info" by (simp add: example_state_def)
  have sub: "map_sum id report
     (generate_recommendation ''2024-01-02 03:04:05''
        (example_state\<lparr>stock_info := Some (example_info\<lparr>si_current_price := Some 110\<rparr>)\<rparr>)) =
   map_sum id report (generate_recommendation ''2024-01-02 03:04:05'' example_state)"
    using t[THEN conjunct2, THEN conjunct2, THEN conjunct2, THEN conjunct2, THEN conjunct2,
            THEN spec, THEN mp, OF si]
    by (simp add: example_state_tech)
  show ?thesis
    using w sub si example_state_report example_state_valid
    by (simp add: example_state_quote example_state_tech)
qed

end
